theory Spec2Isabelle
  imports Main "HOL-Library.Word"
begin

unbundle bit_operations_syntax

section \<open>Constants and plain data of \<^verbatim>\<open>posix_translation/local_socket.cc\<close>\<close>

text \<open>
  The theory embeds \<^verbatim>\<open>LocalSocket\<close>, the in-process AF_UNIX endpoint. The C++ member
  names end in an underscore (\<^verbatim>\<open>peer_\<close>, \<^verbatim>\<open>queue_\<close>); the record fields below drop it.
  A call that returns \<^verbatim>\<open>-1\<close> with \<^verbatim>\<open>errno = e\<close> is the value \<open>Fail e\<close>, a call that returns
  \<^verbatim>\<open>n\<close> is \<open>Ret n\<close>, and a call that reaches \<^verbatim>\<open>sys->Wait()\<close> with its waiting condition true
  is \<open>Blocked\<close>: every operation runs under the one VFS mutex, so an operation is modelled
  as the segment it executes while it holds the lock.
\<close>

datatype errno =
  EINVAL | EISCONN | ENOSYS | EOPNOTSUPP | ECONNREFUSED | ECONNRESET
  | EAGAIN | EBADF | EMFILE | ESPIPE | EADDRINUSE | EFAULT

datatype ret = Fail errno | Ret int | Blocked

datatype sock_type = SOCK_STREAM | SOCK_DGRAM | SOCK_SEQPACKET

datatype ConnectState =
  SOCKET_NEW | SOCKET_CONNECTING | SOCKET_CONNECTED | SOCKET_LISTENING

datatype StreamDir = READ_ONLY | WRITE_ONLY | READ_WRITE

type_synonym byte = "8 word"

definition AF_UNIX :: int where "AF_UNIX = 1"
definition SOL_SOCKET :: int where "SOL_SOCKET = 1"
definition SCM_RIGHTS :: int where "SCM_RIGHTS = 1"
definition SCM_CREDENTIALS :: int where "SCM_CREDENTIALS = 2"
definition SO_PASSCRED :: int where "SO_PASSCRED = 16"
definition MSG_CTRUNC :: int where "MSG_CTRUNC = 8"
definition MSG_TRUNC :: int where "MSG_TRUNC = 32"
definition MSG_DONTWAIT :: int where "MSG_DONTWAIT = 64"
definition O_NONBLOCK :: int where "O_NONBLOCK = 2048"
definition POLLIN :: int where "POLLIN = 1"
definition POLLOUT :: int where "POLLOUT = 4"
definition POLLERR :: int where "POLLERR = 8"
definition POLLHUP :: int where "POLLHUP = 16"

text \<open>\<^verbatim>\<open>static const int kBufferSize = 224*1024;\<close>\<close>

definition kBufferSize :: nat where "kBufferSize = 224 * 1024"

text \<open>\<^verbatim>\<open>offsetof(struct sockaddr_un, sun_path)\<close>: the family field is a 16-bit integer.\<close>

definition kSunPathOffset :: int where "kSunPathOffset = 2"

subsection \<open>The cmsg macros\<close>

text \<open>
  The macros come from the C library's \<^verbatim>\<open>sys/socket.h\<close>, which is not part of the
  repository. Modelled from the spec: "Wire layout follows the POSIX cmsg macros", on the
  ILP32 targets of the runtime: a header of three 32-bit fields, aligned to
  \<^verbatim>\<open>sizeof(long)\<close>. The theorems below use these sizes only through the definitions.
\<close>

definition sizeof_long :: nat where "sizeof_long = 4"
definition sizeof_int :: nat where "sizeof_int = 4"
definition sizeof_cmsghdr :: nat where "sizeof_cmsghdr = 12"
definition sizeof_ucred :: nat where "sizeof_ucred = 12"

definition CMSG_ALIGN :: "nat \<Rightarrow> nat" where
  "CMSG_ALIGN n = ((n + sizeof_long - 1) div sizeof_long) * sizeof_long"

definition CMSG_LEN :: "nat \<Rightarrow> nat" where
  "CMSG_LEN n = CMSG_ALIGN sizeof_cmsghdr + n"

definition CMSG_SPACE :: "nat \<Rightarrow> nat" where
  "CMSG_SPACE n = CMSG_ALIGN sizeof_cmsghdr + CMSG_ALIGN n"

subsection \<open>Credentials, datagrams, messages\<close>

record ucred =
  pid :: int
  uid :: int
  gid :: int

text \<open>\<^verbatim>\<open>struct Datagram { ucred cred_; std::vector<char> content_; }\<close>\<close>

record Datagram =
  cred :: ucred
  content :: "byte list"

text \<open>
  One control message as the \<^verbatim>\<open>CMSG_FIRSTHDR\<close>/\<^verbatim>\<open>CMSG_NXTHDR\<close> walk yields it: the three header
  fields and the 32-bit integers that follow the header at \<^verbatim>\<open>CMSG_DATA\<close>.
\<close>

record cmsghdr =
  cmsg_len :: nat
  cmsg_level :: int
  cmsg_type :: int
  cmsg_data :: "int list"

text \<open>
  \<^verbatim>\<open>struct msghdr\<close>. An iovec is the byte buffer it points to, \<^verbatim>\<open>iov_len\<close> being the length
  of the buffer and \<^verbatim>\<open>msg_iovlen\<close> the number of buffers. \<open>msg_control\<close> is the sequence of
  control messages in the control buffer; \<open>msg_controllen\<close> is the field of that name.
\<close>

record msghdr =
  msg_iov :: "byte list list"
  msg_control :: "cmsghdr list"
  msg_controllen :: nat
  msg_flags :: int

text \<open>\<^verbatim>\<open>sockaddr_un\<close>: the family and the bytes of \<^verbatim>\<open>sun_path\<close>.\<close>

record sockaddr =
  sa_family :: int
  sun_path :: string

subsection \<open>The ring buffer of a stream socket\<close>

text \<open>
  Modelled from the spec: \<^verbatim>\<open>buffer_\<close> is a circular buffer whose class is not in the
  repository's sources. "A fixed-capacity byte ring supporting size, capacity,
  write(bytes) -> count actually written, and read(dst, n) -> count actually read. Writes
  are partial when the ring is near-full and never block."
\<close>

record CircularBuffer =
  capacity :: nat
  ring :: "byte list"

definition cb_size :: "CircularBuffer \<Rightarrow> nat" where
  "cb_size b = length (ring b)"

definition cb_write :: "CircularBuffer \<Rightarrow> byte list \<Rightarrow> nat \<times> CircularBuffer" where
  "cb_write b xs =
     (let n = min (length xs) (capacity b - cb_size b)
      in (n, b\<lparr>ring := ring b @ take n xs\<rparr>))"

definition cb_read :: "CircularBuffer \<Rightarrow> nat \<Rightarrow> byte list \<times> CircularBuffer" where
  "cb_read b n =
     (let k = min n (cb_size b)
      in (take k (ring b), b\<lparr>ring := drop k (ring b)\<rparr>))"

subsection \<open>The endpoint\<close>

text \<open>
  An endpoint refers to other endpoints (\<^verbatim>\<open>peer_\<close>, \<^verbatim>\<open>connection_queue_\<close>) by reference; a
  reference is an index into the store of the world below. \<open>oflag\<close> and \<open>closed\<close> are the
  state of the \<^verbatim>\<open>FileStream\<close> base class that \<^verbatim>\<open>oflag()\<close>, \<^verbatim>\<open>is_block()\<close> and \<^verbatim>\<open>IsClosed()\<close> read.
\<close>

record LocalSocket =
  oflag :: int
  closed :: bool
  socket_type :: sock_type
  connect_state :: ConnectState
  stream_dir :: StreamDir
  connection_backlog :: int
  pass_cred :: int
  my_cred :: ucred
  peer_cred :: ucred
  peer :: "nat option"
  abstract_name :: string
  logd_name :: string
  logd_target_name :: string
  connection_queue :: "nat list"
  buffer :: CircularBuffer
  queue :: "Datagram list"
  cmsg_fd_queue :: "int list list"

text \<open>Modelled from the spec: "flags: blocking vs non-blocking"; \<^verbatim>\<open>is_block()\<close> of the base class.\<close>

definition is_block :: "LocalSocket \<Rightarrow> bool" where
  "is_block s \<longleftrightarrow> oflag s AND O_NONBLOCK = 0"

text \<open>
  The constructor. \<open>p\<close> and \<open>u\<close> are what \<^verbatim>\<open>ProcessEmulator::GetPid()\<close> and \<^verbatim>\<open>GetUid()\<close> answer
  at construction.
\<close>

definition LocalSocket_new :: "int \<Rightarrow> sock_type \<Rightarrow> StreamDir \<Rightarrow> int \<Rightarrow> int \<Rightarrow> LocalSocket" where
  "LocalSocket_new ofl ty dir p u =
     \<lparr>oflag = ofl, closed = False, socket_type = ty, connect_state = SOCKET_NEW,
      stream_dir = dir, connection_backlog = 0, pass_cred = 0,
      my_cred = \<lparr>pid = p, uid = u, gid = u\<rparr>,
      peer_cred = \<lparr>pid = 0, uid = - 1, gid = - 1\<rparr>,
      peer = None, abstract_name = [], logd_name = [], logd_target_name = [],
      connection_queue = [],
      buffer = \<lparr>capacity = (if ty = SOCK_STREAM \<and> dir \<noteq> WRITE_ONLY then kBufferSize else 0),
                ring = []\<rparr>,
      queue = [], cmsg_fd_queue = []\<rparr>"

section \<open>The world: the store of endpoints and the virtual file system\<close>

text \<open>
  \<open>socks\<close> is the store: \<open>socks w h\<close> is the endpoint that reference \<open>h\<close> points to, and the
  references below \<open>nalloc w\<close> are the allocated ones. The other fields are the state of the
  \<^verbatim>\<open>VirtualFileSystem\<close> singleton that the endpoint code reaches through
  \<^verbatim>\<open>GetVirtualFileSystem()\<close>; its class is not in the repository's sources.

  Modelled from the spec: the collaborator contract "AddFileStreamLocked(endpoint) -> fd |
  -EMFILE, DupLocked(fd, hint) -> new_fd, CloseLocked(fd), plus two NameRegistry accessors",
  and for a registry "Bind(name, endpoint) associates name -> endpoint; fails with
  EADDRINUSE if the name is taken by a live endpoint; passing a null endpoint clears the
  binding. Lookup(name) -> endpoint | null". The descriptor table maps a descriptor to the
  reference of its stream and hands out the lowest free descriptor below \<open>fd_limit\<close>;
  \<open>close_log\<close> records the descriptors given to \<^verbatim>\<open>CloseLocked\<close>, oldest first.
  \<^verbatim>\<open>Broadcast\<close> and \<^verbatim>\<open>NotifyListeners\<close> only wake waiting threads and change no data.
\<close>

record world =
  socks :: "nat \<Rightarrow> LocalSocket"
  nalloc :: nat
  fd_table :: "int \<Rightarrow> nat option"
  fd_limit :: nat
  close_log :: "int list"
  abstract_ns :: "string \<Rightarrow> nat option"
  logd_ns :: "string \<Rightarrow> nat option"

definition update_sock :: "world \<Rightarrow> nat \<Rightarrow> (LocalSocket \<Rightarrow> LocalSocket) \<Rightarrow> world" where
  "update_sock w h f = w\<lparr>socks := (socks w)(h := f (socks w h))\<rparr>"

definition GetFirstUnusedDescriptor :: "world \<Rightarrow> int option" where
  "GetFirstUnusedDescriptor w =
     find (\<lambda>fd. fd_table w fd = None) (map int [0..<fd_limit w])"

definition AddFileStreamLocked :: "world \<Rightarrow> nat \<Rightarrow> int \<times> world" where
  "AddFileStreamLocked w stream =
     (case GetFirstUnusedDescriptor w of
        None \<Rightarrow> (- 1, w)
      | Some fd \<Rightarrow> (fd, w\<lparr>fd_table := (fd_table w)(fd \<mapsto> stream)\<rparr>))"

text \<open>\<^verbatim>\<open>DupLocked(fd, -1)\<close>: the only form the endpoint calls.\<close>

definition DupLocked :: "world \<Rightarrow> int \<Rightarrow> int \<times> world" where
  "DupLocked w fd =
     (case fd_table w fd of
        None \<Rightarrow> (- 1, w)
      | Some stream \<Rightarrow> AddFileStreamLocked w stream)"

definition CloseLocked :: "world \<Rightarrow> int \<Rightarrow> world" where
  "CloseLocked w fd =
     w\<lparr>fd_table := (fd_table w)(fd := None), close_log := close_log w @ [fd]\<rparr>"

definition ns_Bind ::
  "(string \<Rightarrow> nat option) \<Rightarrow> string \<Rightarrow> nat option \<Rightarrow> ret \<times> (string \<Rightarrow> nat option)" where
  "ns_Bind ns name stream =
     (case stream of
        None \<Rightarrow> (Ret 0, ns(name := None))
      | Some h \<Rightarrow>
          (case ns name of
             Some _ \<Rightarrow> (Fail EADDRINUSE, ns)
           | None \<Rightarrow> (Ret 0, ns(name \<mapsto> h))))"

section \<open>Pairing and release\<close>

text \<open>\<^verbatim>\<open>LocalSocket::set_peer\<close>, on the endpoint \<open>h\<close> with the peer \<open>p\<close>.\<close>

definition set_peer :: "world \<Rightarrow> nat \<Rightarrow> nat \<Rightarrow> world" where
  "set_peer w h p =
     update_sock w h (\<lambda>s. s\<lparr>peer := Some p, connect_state := SOCKET_CONNECTED,
                             peer_cred := my_cred (socks w p)\<rparr>)"

text \<open>\<^verbatim>\<open>LocalSocket::OnLastFileRef\<close>.\<close>

definition OnLastFileRef :: "world \<Rightarrow> nat \<Rightarrow> world" where
  "OnLastFileRef w h =
     (let w1 = (case peer (socks w h) of
                  None \<Rightarrow> w
                | Some p \<Rightarrow>
                    update_sock (update_sock w p (\<lambda>s. s\<lparr>peer := None\<rparr>)) h
                      (\<lambda>s. s\<lparr>peer := None\<rparr>));
          s = socks w1 h;
          w2 = (if abstract_name s \<noteq> []
                then w1\<lparr>abstract_ns := snd (ns_Bind (abstract_ns w1) (abstract_name s) None)\<rparr>
                else w1);
          w3 = (if logd_name s \<noteq> []
                then w2\<lparr>logd_ns := snd (ns_Bind (logd_ns w2) (logd_name s) None)\<rparr>
                else w2)
      in w3)"

text \<open>
  The release of the last descriptor of an endpoint by the file system. Modelled from the
  spec: "closing an endpoint ... observes IsClosed", "When an endpoint's last FD reference
  is released": the base class reports \<^verbatim>\<open>IsClosed()\<close> from then on, and the hook runs.
\<close>

definition release_last_ref :: "world \<Rightarrow> nat \<Rightarrow> world" where
  "release_last_ref w h = OnLastFileRef (update_sock w h (\<lambda>s. s\<lparr>closed := True\<rparr>)) h"

section \<open>Addresses, bind and listen\<close>

text \<open>
  The first \<open>n\<close> bytes of \<^verbatim>\<open>sun_path\<close>; bytes of the array that the caller did not write
  are zero.
\<close>

definition sun_bytes :: "sockaddr \<Rightarrow> nat \<Rightarrow> string" where
  "sun_bytes addr n = take n (sun_path addr @ replicate n (CHR 0x00))"

definition ValidateSockaddr :: "sockaddr \<Rightarrow> int \<Rightarrow> bool" where
  "ValidateSockaddr addr addrlen \<longleftrightarrow>
     (if sa_family addr \<noteq> AF_UNIX then False
      else if addrlen < kSunPathOffset + 1 then False
      else True)"

text \<open>\<^verbatim>\<open>out_name->assign(str, strnlen(str, sun_path_length))\<close>\<close>

definition ConvertSockaddrToName :: "sockaddr \<Rightarrow> int \<Rightarrow> string option" where
  "ConvertSockaddrToName addr addrlen =
     (if sun_bytes addr 1 = [CHR 0x00] then None
      else let sun_path_length = nat (addrlen - kSunPathOffset)
           in Some (takeWhile (\<lambda>c. c \<noteq> CHR 0x00) (sun_bytes addr sun_path_length)))"

text \<open>\<^verbatim>\<open>out_name->assign(saddr_un->sun_path + 1, sun_path_length - 1)\<close>\<close>

definition ConvertSockaddrToAbstractName :: "sockaddr \<Rightarrow> int \<Rightarrow> string option" where
  "ConvertSockaddrToAbstractName addr addrlen =
     (if sun_bytes addr 1 \<noteq> [CHR 0x00] then None
      else let sun_path_length = nat (addrlen - kSunPathOffset)
           in Some (take (sun_path_length - 1) (drop 1 (sun_bytes addr sun_path_length))))"

definition bind :: "world \<Rightarrow> nat \<Rightarrow> sockaddr \<Rightarrow> int \<Rightarrow> ret \<times> world" where
  "bind w h addr addrlen =
     (let s = socks w h in
      if \<not> ValidateSockaddr addr addrlen then (Fail EINVAL, w)
      else if abstract_name s \<noteq> [] \<or> logd_name s \<noteq> [] then (Fail EINVAL, w)
      else
        (case ConvertSockaddrToName addr addrlen of
           Some name \<Rightarrow>
             (let (result, ns) = ns_Bind (logd_ns w) name (Some h);
                  w1 = w\<lparr>logd_ns := ns\<rparr>
              in if result = Ret 0
                 then (result, update_sock w1 h (\<lambda>s. s\<lparr>logd_name := name\<rparr>))
                 else (result, w1))
         | None \<Rightarrow>
             (case ConvertSockaddrToAbstractName addr addrlen of
                Some name \<Rightarrow>
                  (let (result, ns) = ns_Bind (abstract_ns w) name (Some h);
                       w1 = w\<lparr>abstract_ns := ns\<rparr>
                   in if result = Ret 0
                      then (result, update_sock w1 h (\<lambda>s. s\<lparr>abstract_name := name\<rparr>))
                      else (result, w1))
              | None \<Rightarrow> (Fail ENOSYS, w))))"

definition listen :: "world \<Rightarrow> nat \<Rightarrow> int \<Rightarrow> ret \<times> world" where
  "listen w h backlog =
     (let s = socks w h in
      if socket_type s = SOCK_DGRAM then (Fail EOPNOTSUPP, w)
      else if abstract_name s = [] \<and> logd_name s = [] then (Fail EINVAL, w)
      else (Ret 0, update_sock w h (\<lambda>s. s\<lparr>connect_state := SOCKET_LISTENING,
                                            connection_backlog := backlog\<rparr>)))"

section \<open>Socket options\<close>

text \<open>
  What \<^verbatim>\<open>getsockopt\<close> stores through its out-parameters: the new \<^verbatim>\<open>*optlen\<close> and the object
  whose first \<^verbatim>\<open>*optlen\<close> bytes were copied to \<^verbatim>\<open>optval\<close>. \<open>verify\<close> is the answer of
  \<^verbatim>\<open>internal::VerifyGetSocketOption(optval, optlen)\<close> (\<open>None\<close> for 0) and \<open>base\<close> the answer
  of \<^verbatim>\<open>SocketStream::getsockopt\<close>; neither function is in the repository's sources.
\<close>

datatype optval = CredVal ucred | IntVal int



text \<open>
  \<open>optval\<close> is the integer \<^verbatim>\<open>optval\<close> points to, \<open>verify\<close> the answer of
  \<^verbatim>\<open>internal::VerifySetSocketOption\<close>, \<open>base\<close> the outcome of \<^verbatim>\<open>SocketStream::setsockopt\<close>.
\<close>

definition setsockopt ::
  "world \<Rightarrow> nat \<Rightarrow> int \<Rightarrow> int \<Rightarrow> int \<Rightarrow> errno option \<Rightarrow> ret \<Rightarrow> ret \<times> world" where
  "setsockopt w h level optname optval verify base =
     (if level = SOL_SOCKET \<and> optname = SO_PASSCRED then
        (case verify of
           Some error \<Rightarrow> (Fail error, w)
         | None \<Rightarrow> (Ret 0, update_sock w h (\<lambda>s. s\<lparr>pass_cred := optval\<rparr>)))
      else (base, w))"

section \<open>connect and accept\<close>

text \<open>
  \<^verbatim>\<open>connection_backlog_ == connection_queue_.size()\<close> compares an \<^verbatim>\<open>int\<close> with a \<^verbatim>\<open>size_t\<close>: the
  \<^verbatim>\<open>int\<close> is converted to the unsigned type (32 bits on the runtime's targets) first.
\<close>

definition size_t_of_int :: "int \<Rightarrow> int" where
  "size_t_of_int i = i mod 2 ^ 32"

text \<open>
  \<^verbatim>\<open>LocalSocket::HandleConnectLocked\<close>, run on the bound endpoint \<open>b\<close> for the connecting
  endpoint \<open>c\<close>; the boolean is its result.
\<close>

definition HandleConnectLocked :: "world \<Rightarrow> nat \<Rightarrow> nat \<Rightarrow> bool \<times> world" where
  "HandleConnectLocked w b c =
     (let s = socks w b in
      if socket_type s = SOCK_STREAM \<or> socket_type s = SOCK_SEQPACKET then
        if connect_state s \<noteq> SOCKET_LISTENING then (False, w)
        else if size_t_of_int (connection_backlog s) = int (length (connection_queue s))
        then (False, w)
        else (True, update_sock w b (\<lambda>s. s\<lparr>connection_queue := connection_queue s @ [c]\<rparr>))
      else (True, w))"

text \<open>
  \<^verbatim>\<open>LocalSocket::WaitForLocalSocketConnect\<close>: a stream or seqpacket endpoint becomes
  CONNECTING and waits until an accept changes its state, so the call is \<open>Blocked\<close> here;
  a datagram endpoint returns at once.
\<close>

definition WaitForLocalSocketConnect :: "world \<Rightarrow> nat \<Rightarrow> ret \<times> world" where
  "WaitForLocalSocketConnect w h =
     (let s = socks w h in
      if socket_type s = SOCK_STREAM \<or> socket_type s = SOCK_SEQPACKET
      then (Blocked, update_sock w h (\<lambda>s. s\<lparr>connect_state := SOCKET_CONNECTING\<rparr>))
      else (Ret 0, w))"

text \<open>
  The lookup of the address in \<^verbatim>\<open>connect\<close>: the bound endpoint found (or none) and the
  value of the local \<^verbatim>\<open>logd_name\<close>; \<open>None\<close> when neither conversion applies.
\<close>

definition connect_lookup :: "world \<Rightarrow> sockaddr \<Rightarrow> int \<Rightarrow> (nat option \<times> string) option" where
  "connect_lookup w addr addrlen =
     (case ConvertSockaddrToName addr addrlen of
        Some name \<Rightarrow> Some (logd_ns w name, name)
      | None \<Rightarrow>
          (case ConvertSockaddrToAbstractName addr addrlen of
             Some name \<Rightarrow> Some (abstract_ns w name, [])
           | None \<Rightarrow> None))"

definition connect :: "world \<Rightarrow> nat \<Rightarrow> sockaddr \<Rightarrow> int \<Rightarrow> ret \<times> world" where
  "connect w h addr addrlen =
     (let s = socks w h in
      if connect_state s = SOCKET_CONNECTED \<or> connect_state s = SOCKET_LISTENING
      then (Fail EISCONN, w)
      else if socket_type s \<noteq> SOCK_DGRAM \<and> \<not> is_block s then (Fail ENOSYS, w)
      else if \<not> ValidateSockaddr addr addrlen then (Fail EINVAL, w)
      else
        (case connect_lookup w addr addrlen of
           None \<Rightarrow> (Fail ENOSYS, w)
         | Some (None, logd) \<Rightarrow> (Fail ECONNREFUSED, w)
         | Some (Some bound_socket, logd) \<Rightarrow>
             if socket_type (socks w bound_socket) \<noteq> socket_type s
             then (Fail ECONNREFUSED, w)
             else
               (let (ok, w1) = HandleConnectLocked w bound_socket h in
                if \<not> ok then (Fail ECONNREFUSED, w1)
                else WaitForLocalSocketConnect
                       (update_sock w1 h (\<lambda>s. s\<lparr>logd_target_name := logd\<rparr>)) h)))"


text \<open>
  \<^verbatim>\<open>LocalSocket::WaitForOpenedConnectToAccept\<close>: the queued connects that have been closed
  are popped from the front. With an empty queue the caller then waits; \<open>timed_out\<close> says
  that \<^verbatim>\<open>WaitUntil\<close> reported the time limit.
\<close>

definition skip_closed :: "world \<Rightarrow> nat list \<Rightarrow> nat list" where
  "skip_closed w q = dropWhile (\<lambda>c. closed (socks w c)) q"

text \<open>
  \<^verbatim>\<open>LocalSocket::accept\<close>. \<open>addr\<close> is \<open>None\<close> for a null \<^verbatim>\<open>addr\<close> and otherwise the answer of
  \<^verbatim>\<open>internal::VerifyOutputSocketAddress\<close>; \<open>p\<close> and \<open>u\<close> are the process emulator's answers for
  the new endpoint. The second component says whether the out-parameter address was
  written (family \<^verbatim>\<open>AF_UNIX\<close>, \<^verbatim>\<open>*addrlen = sizeof(sa_family_t)\<close>).
\<close>

definition accept ::
  "world \<Rightarrow> nat \<Rightarrow> errno option option \<Rightarrow> bool \<Rightarrow> int \<Rightarrow> int \<Rightarrow> ret \<times> bool \<times> world" where
  "accept w h addr timed_out p u =
     (let s = socks w h in
      if socket_type s = SOCK_DGRAM then (Fail EOPNOTSUPP, False, w)
      else
        (case addr of
           Some (Some error) \<Rightarrow> (Fail error, False, w)
         | _ \<Rightarrow>
             if connect_state s \<noteq> SOCKET_LISTENING then (Fail EINVAL, False, w)
             else if \<not> is_block s then (Fail ENOSYS, False, w)
             else
               (let q = skip_closed w (connection_queue s);
                    w1 = update_sock w h (\<lambda>s. s\<lparr>connection_queue := q\<rparr>)
                in if q = [] \<and> \<not> timed_out then (Blocked, False, w1)
                   else if closed s then (Fail EBADF, False, w1)
                   else
                     (case q of
                        [] \<Rightarrow> (Fail EAGAIN, False, w1)
                      | client_socket # rest \<Rightarrow>
                          (let server_socket = nalloc w1;
                               (accept_fd, w2) = AddFileStreamLocked w1 server_socket
                           in if accept_fd < 0 then (Fail EMFILE, False, w1)
                              else
                                (let w3 = w2\<lparr>socks := (socks w2)(server_socket :=
                                                 LocalSocket_new (oflag s) (socket_type s)
                                                   READ_WRITE p u),
                                             nalloc := nalloc w2 + 1\<rparr>;
                                     w4 = update_sock w3 h
                                            (\<lambda>s. s\<lparr>connection_queue := rest\<rparr>);
                                     w5 = set_peer w4 server_socket client_socket;
                                     w6 = set_peer w5 client_socket server_socket
                                 in (Ret accept_fd, addr \<noteq> None, w6)))))))"

section \<open>Poll events\<close>

definition CanRead :: "LocalSocket \<Rightarrow> bool" where
  "CanRead s =
     (if socket_type s \<noteq> SOCK_DGRAM \<and> peer s = None then True
      else if socket_type s = SOCK_STREAM then cb_size (buffer s) > 0
      else queue s \<noteq> [])"

definition CanWrite :: "world \<Rightarrow> LocalSocket \<Rightarrow> bool" where
  "CanWrite w s =
     (case peer s of
        None \<Rightarrow> True
      | Some p \<Rightarrow>
          if socket_type s = SOCK_STREAM
          then cb_size (buffer (socks w p)) < capacity (buffer (socks w p))
          else True)"

definition GetPollEvents :: "world \<Rightarrow> LocalSocket \<Rightarrow> int" where
  "GetPollEvents w s =
     (case connect_state s of
        SOCKET_NEW \<Rightarrow> POLLOUT OR POLLHUP
      | SOCKET_CONNECTING \<Rightarrow> 0
      | SOCKET_CONNECTED \<Rightarrow>
          if stream_dir s = READ_ONLY then
            (if cb_size (buffer s) > 0 then POLLIN else 0)
              OR (if peer s = None then POLLHUP else 0)
          else if stream_dir s = WRITE_ONLY then
            (case peer s of
               None \<Rightarrow> POLLOUT OR POLLERR
             | Some p \<Rightarrow>
                 if cb_size (buffer (socks w p)) < capacity (buffer (socks w p))
                 then POLLOUT else 0)
          else
            (let events = 0;
                 events = (if CanRead s then events OR POLLIN else events);
                 events = (if CanWrite w s then events OR POLLOUT else events);
                 events = (if socket_type s \<noteq> SOCK_DGRAM \<and> peer s = None
                           then events OR POLLHUP else events)
             in events)
      | SOCKET_LISTENING \<Rightarrow>
          if connection_queue s \<noteq> [] then POLLIN OR POLLOUT else POLLOUT)"

definition IsSelectReadReady :: "world \<Rightarrow> LocalSocket \<Rightarrow> bool" where
  "IsSelectReadReady w s \<longleftrightarrow> GetPollEvents w s AND (POLLIN OR POLLHUP OR POLLERR) \<noteq> 0"

definition IsSelectWriteReady :: "world \<Rightarrow> LocalSocket \<Rightarrow> bool" where
  "IsSelectWriteReady w s \<longleftrightarrow> GetPollEvents w s AND (POLLOUT OR POLLERR) \<noteq> 0"

section \<open>recvmsg\<close>

text \<open>
  The stream loop of \<^verbatim>\<open>recvmsg\<close>:
  \<^verbatim>\<open>for (i = 0; i < msg_iovlen && buffer_.size() > 0; ++i) bytes_read += buffer_.read(...)\<close>.
  A buffer that receives \<open>k\<close> bytes keeps its bytes from position \<open>k\<close> on.
\<close>

fun stream_read ::
  "CircularBuffer \<Rightarrow> byte list list \<Rightarrow> nat \<times> byte list list \<times> CircularBuffer" where
  "stream_read b [] = (0, [], b)"
| "stream_read b (v # vs) =
     (if cb_size b > 0 then
        (let (chunk, b1) = cb_read b (length v);
             (n, vs1, b2) = stream_read b1 vs
         in (length chunk + n, (chunk @ drop (length chunk) v) # vs1, b2))
      else (0, v # vs, b))"

text \<open>
  The datagram loop: \<open>rest\<close> is the content from \<^verbatim>\<open>iter\<close> on, so \<^verbatim>\<open>remaining\<close> is its length.
  The result is the final \<^verbatim>\<open>remaining\<close> and the buffers.
\<close>

fun dgram_copy :: "byte list \<Rightarrow> byte list list \<Rightarrow> nat \<times> byte list list" where
  "dgram_copy rest [] = (length rest, [])"
| "dgram_copy rest (v # vs) =
     (if length rest > 0 then
        (let len = min (length v) (length rest);
             (remaining, vs1) = dgram_copy (drop len rest) vs
         in (remaining, (take len rest @ drop len v) # vs1))
      else (0, v # vs))"

text \<open>
  The loop that closes the descriptors that do not fit:
  \<^verbatim>\<open>while (CMSG_SPACE(cmsg_len) > msg->msg_controllen && !fds.empty())\<close>, with
  \<^verbatim>\<open>cmsg_len = CMSG_LEN(fds.size() * sizeof(int))\<close> throughout.
\<close>

function close_unpassed :: "world \<Rightarrow> int list \<Rightarrow> nat \<Rightarrow> int \<Rightarrow> world \<times> int list \<times> int" where
  "close_unpassed w fds controllen flags =
     (if CMSG_SPACE (CMSG_LEN (length fds * sizeof_int)) > controllen \<and> fds \<noteq> []
      then close_unpassed (CloseLocked w (last fds)) (butlast fds) controllen
             (flags OR MSG_CTRUNC)
      else (w, fds, flags))"
  by pat_completeness auto
termination
  by (relation "measure (\<lambda>(w, fds, controllen, flags). length fds)") auto

declare close_unpassed.simps [simp del]

text \<open>
  The payload part of \<^verbatim>\<open>recvmsg\<close>: \<^verbatim>\<open>bytes_read\<close>, \<^verbatim>\<open>cred\<close> (\<open>None\<close> while the local variable is
  uninitialised), the message and the endpoint.
\<close>

definition recvmsg_payload ::
  "LocalSocket \<Rightarrow> msghdr \<Rightarrow> int \<times> ucred option \<times> msghdr \<times> LocalSocket" where
  "recvmsg_payload s msg =
     (if socket_type s = SOCK_STREAM then
        (if cb_size (buffer s) > 0 then
           (let (n, iov, b) = stream_read (buffer s) (msg_iov msg)
            in (int n, Some (peer_cred s), msg\<lparr>msg_iov := iov\<rparr>, s\<lparr>buffer := b\<rparr>))
         else (0, Some (peer_cred s), msg, s))
      else
        (case queue s of
           [] \<Rightarrow> (0, None, msg, s)
         | datagram # rest \<Rightarrow>
             (let (remaining, iov) = dgram_copy (content datagram) (msg_iov msg);
                  flags = (if remaining > 0 then msg_flags msg OR MSG_TRUNC
                           else msg_flags msg)
              in (int (length (content datagram)) - int remaining, Some (cred datagram),
                  msg\<lparr>msg_iov := iov, msg_flags := flags\<rparr>, s\<lparr>queue := rest\<rparr>))))"

text \<open>
  The control-message part of \<^verbatim>\<open>recvmsg\<close>, run when at least one byte was read. The
  resulting \<open>msg_control\<close> holds the control messages written to the caller's buffer.
\<close>

definition cred_data :: "ucred option \<Rightarrow> int list" where
  "cred_data c = (case c of None \<Rightarrow> [] | Some c \<Rightarrow> [pid c, uid c, gid c])"

definition recvmsg_control ::
  "world \<Rightarrow> LocalSocket \<Rightarrow> msghdr \<Rightarrow> ucred option \<Rightarrow> msghdr \<times> LocalSocket \<times> world" where
  "recvmsg_control w s msg cr =
     (let (flags, control, controllen, s1, w1) =
            (case cmsg_fd_queue s of
               [] \<Rightarrow> (msg_flags msg, [], 0, s, w)
             | front # rest \<Rightarrow>
                 (let (w1, fds, flags) =
                        close_unpassed w front (msg_controllen msg) (msg_flags msg);
                      len = CMSG_LEN (length fds * sizeof_int);
                      s1 = s\<lparr>cmsg_fd_queue := rest\<rparr>
                  in if CMSG_SPACE len > msg_controllen msg then (flags, [], 0, s1, w1)
                     else (flags,
                           [\<lparr>cmsg_len = len, cmsg_level = SOL_SOCKET,
                             cmsg_type = SCM_RIGHTS, cmsg_data = fds\<rparr>],
                           CMSG_SPACE len, s1, w1)));
          (control, controllen) =
            (if pass_cred s \<noteq> 0 \<and> CMSG_SPACE sizeof_ucred + controllen \<le> msg_controllen msg
             then (control @ [\<lparr>cmsg_len = CMSG_LEN sizeof_ucred, cmsg_level = SOL_SOCKET,
                               cmsg_type = SCM_CREDENTIALS, cmsg_data = cred_data cr\<rparr>],
                   controllen + CMSG_LEN sizeof_ucred)
             else (control, controllen))
      in (msg\<lparr>msg_flags := flags, msg_control := control, msg_controllen := controllen\<rparr>,
          s1, w1))"

text \<open>
  The condition under which \<^verbatim>\<open>recvmsg\<close> enters \<^verbatim>\<open>sys->Wait()\<close>:
  \<^verbatim>\<open>is_block() && !(flags & MSG_DONTWAIT)\<close> and \<^verbatim>\<open>peer_ && !IsSelectReadReady()\<close>.
\<close>

definition recvmsg_waits :: "world \<Rightarrow> LocalSocket \<Rightarrow> int \<Rightarrow> bool" where
  "recvmsg_waits w s flags \<longleftrightarrow>
     is_block s \<and> flags AND MSG_DONTWAIT = 0 \<and> peer s \<noteq> None \<and> \<not> IsSelectReadReady w s"

text \<open>
  \<^verbatim>\<open>LocalSocket::recvmsg\<close>: the return value, the message as the caller finds it, and the
  world. The call is \<open>Blocked\<close> when it would enter \<^verbatim>\<open>sys->Wait()\<close>.
\<close>

definition recvmsg :: "world \<Rightarrow> nat \<Rightarrow> msghdr \<Rightarrow> int \<Rightarrow> ret \<times> msghdr \<times> world" where
  "recvmsg w h msg flags =
     (let s = socks w h in
      if stream_dir s = WRITE_ONLY then (Fail EBADF, msg, w)
      else if socket_type s \<noteq> SOCK_DGRAM \<and> connect_state s \<noteq> SOCKET_CONNECTED
      then (Fail EINVAL, msg, w)
      else if recvmsg_waits w s flags then (Blocked, msg, w)
      else
        (let (bytes_read, cr, msg1, s1) = recvmsg_payload s (msg\<lparr>msg_flags := 0\<rparr>);
             (msg2, s2, w2) =
               (if bytes_read \<le> 0
                then (msg1\<lparr>msg_control := [], msg_controllen := 0\<rparr>, s1, w)
                else recvmsg_control w s1 msg1 cr);
             w3 = w2\<lparr>socks := (socks w2)(h := s2)\<rparr>
         in if bytes_read > 0 then (Ret bytes_read, msg2, w3)
            else if peer s = None \<and> socket_type s \<noteq> SOCK_DGRAM then (Ret 0, msg2, w3)
            else (Fail EAGAIN, msg2, w3)))"

text \<open>
  \<^verbatim>\<open>LocalSocket::recvfrom\<close>, \<^verbatim>\<open>recv\<close> and \<^verbatim>\<open>read\<close>. \<open>buf\<close> is the caller's buffer of \<^verbatim>\<open>len\<close> bytes;
  \<open>addr\<close> and \<open>addrlen\<close> say whether the two pointers are non-null. The result carries the
  buffer afterwards.
\<close>

definition recvfrom ::
  "world \<Rightarrow> nat \<Rightarrow> byte list \<Rightarrow> int \<Rightarrow> bool \<Rightarrow> bool \<Rightarrow> ret \<times> byte list \<times> world" where
  "recvfrom w h buf flags addr addrlen =
     (if addr \<or> addrlen then (Fail EINVAL, buf, w)
      else if length buf = 0 then (Ret 0, buf, w)
      else
        (let msg = \<lparr>msg_iov = [buf], msg_control = [], msg_controllen = 0, msg_flags = 0\<rparr>;
             (r, msg1, w1) = recvmsg w h msg 0
         in (r, concat (msg_iov msg1), w1)))"

definition recv :: "world \<Rightarrow> nat \<Rightarrow> byte list \<Rightarrow> int \<Rightarrow> ret \<times> byte list \<times> world" where
  "recv w h buf flags = recvfrom w h buf flags False False"

definition read :: "world \<Rightarrow> nat \<Rightarrow> byte list \<Rightarrow> ret \<times> byte list \<times> world" where
  "read w h buf = recv w h buf 0"

section \<open>sendmsg\<close>

text \<open>
  The stream loop of \<^verbatim>\<open>HandleSendmsgLocked\<close>: \<^verbatim>\<open>bytes_sent\<close>, \<^verbatim>\<open>bytes_attempted\<close> and the ring.
\<close>

fun stream_write :: "CircularBuffer \<Rightarrow> byte list list \<Rightarrow> nat \<times> nat \<times> CircularBuffer" where
  "stream_write b [] = (0, 0, b)"
| "stream_write b (v # vs) =
     (let (n, b1) = cb_write b v;
          (sent, attempted, b2) = stream_write b1 vs
      in (n + sent, length v + attempted, b2))"

text \<open>\<^verbatim>\<open>for (i = 0; i < wire_fds_len; ++i) fds.push_back(sys->DupLocked(wire_fds[i], -1));\<close>\<close>

fun dup_fds :: "world \<Rightarrow> int list \<Rightarrow> int list \<times> world" where
  "dup_fds w [] = ([], w)"
| "dup_fds w (fd # wire_fds) =
     (let (new_fd, w1) = DupLocked w fd;
          (fds, w2) = dup_fds w1 wire_fds
      in (new_fd # fds, w2))"

text \<open>
  The walk over the control messages of the sender's \<^verbatim>\<open>msghdr\<close>. The two \<^verbatim>\<open>ALOG_ASSERT\<close>s on
  the level and the type are compiled out of release builds; the \<^verbatim>\<open>if\<close> decides.
\<close>

fun collect_fds :: "world \<Rightarrow> cmsghdr list \<Rightarrow> int list \<times> world" where
  "collect_fds w [] = ([], w)"
| "collect_fds w (cmsg # cmsgs) =
     (if cmsg_level cmsg = SOL_SOCKET \<and> cmsg_type cmsg = SCM_RIGHTS
         \<and> cmsg_len cmsg \<ge> CMSG_LEN 0 then
        (let payload_len = cmsg_len cmsg - CMSG_LEN 0;
             wire_fds_len = payload_len div sizeof_int;
             (fds, w1) = dup_fds w (take wire_fds_len (cmsg_data cmsg));
             (more, w2) = collect_fds w1 cmsgs
         in (fds @ more, w2))
      else collect_fds w cmsgs)"

text \<open>
  \<^verbatim>\<open>LocalSocket::HandleSendmsgLocked\<close>, run on the receiving endpoint \<open>r\<close> with the sender's
  credentials.
\<close>

definition HandleSendmsgLocked :: "world \<Rightarrow> nat \<Rightarrow> msghdr \<Rightarrow> ucred \<Rightarrow> ret \<times> world" where
  "HandleSendmsgLocked w r msg sender_cred =
     (let s = socks w r;
          buf = msg_iov msg;
          len = length buf;
          (bytes_sent, bytes_attempted, s1) =
            (if len > 0 then
               (if socket_type s = SOCK_STREAM then
                  (let (sent, attempted, b) = stream_write (buffer s) buf
                   in (sent, attempted, s\<lparr>buffer := b\<rparr>))
                else
                  (length (concat buf), length (concat buf),
                   s\<lparr>queue := queue s @ [\<lparr>cred = sender_cred, content = concat buf\<rparr>]\<rparr>))
             else (0, 0, s));
          (s2, w1) =
            (if bytes_sent \<noteq> 0 \<and> msg_controllen msg > 0 then
               (let (fds, w1) = collect_fds w (msg_control msg)
                in (s1\<lparr>cmsg_fd_queue := cmsg_fd_queue s1 @ [fds]\<rparr>, w1))
             else (s1, w));
          w2 = w1\<lparr>socks := (socks w1)(r := s2)\<rparr>
      in if bytes_sent = 0 \<and> bytes_attempted \<noteq> 0 then (Fail EAGAIN, w2)
         else (Ret (int bytes_sent), w2))"

definition sendmsg :: "world \<Rightarrow> nat \<Rightarrow> msghdr \<Rightarrow> int \<Rightarrow> ret \<times> world" where
  "sendmsg w h msg flags =
     (let s = socks w h in
      if stream_dir s = READ_ONLY then (Fail EBADF, w)
      else if socket_type s \<noteq> SOCK_DGRAM \<and> connect_state s \<noteq> SOCKET_CONNECTED
      then (Fail EINVAL, w)
      else
        (case peer s of
           Some p \<Rightarrow> HandleSendmsgLocked w p msg (my_cred s)
         | None \<Rightarrow>
             if socket_type s = SOCK_DGRAM then
               (if logd_target_name s \<noteq> [] then
                  (case logd_ns w (logd_target_name s) of
                     Some bound_socket \<Rightarrow> HandleSendmsgLocked w bound_socket msg (my_cred s)
                   | None \<Rightarrow> (Fail ECONNREFUSED, w))
                else (Fail ECONNREFUSED, w))
             else (Fail ECONNRESET, w)))"

text \<open>
  \<^verbatim>\<open>LocalSocket::sendto\<close>, \<^verbatim>\<open>send\<close> and \<^verbatim>\<open>write\<close> (here \<open>write_fd\<close>). \<open>dest_addr\<close> says whether
  the pointer is non-null.
\<close>

definition sendto :: "world \<Rightarrow> nat \<Rightarrow> byte list \<Rightarrow> int \<Rightarrow> bool \<Rightarrow> int \<Rightarrow> ret \<times> world" where
  "sendto w h buf flags dest_addr addrlen =
     (if dest_addr \<or> addrlen \<noteq> 0 then (Fail EINVAL, w)
      else if length buf = 0 then (Ret 0, w)
      else sendmsg w h
             \<lparr>msg_iov = [buf], msg_control = [], msg_controllen = 0, msg_flags = 0\<rparr> 0)"

definition send :: "world \<Rightarrow> nat \<Rightarrow> byte list \<Rightarrow> int \<Rightarrow> ret \<times> world" where
  "send w h buf flags = sendto w h buf flags False 0"

definition write_fd :: "world \<Rightarrow> nat \<Rightarrow> byte list \<Rightarrow> ret \<times> world" where
  "write_fd w h buf = send w h buf 0"

section \<open>The operations on a world\<close>

text \<open>
  Every entry point that changes an endpoint, as one step on the world. \<open>New\<close> is the
  construction of an endpoint by \<^verbatim>\<open>socket()\<close>, \<^verbatim>\<open>socketpair()\<close> or \<^verbatim>\<open>pipe()\<close>; \<open>SetPeer\<close> is the
  call of \<^verbatim>\<open>set_peer\<close> by the file system that pairs the two ends of a socketpair or a pipe;
  \<open>Release\<close> is the release of an endpoint's last descriptor. \<^verbatim>\<open>recv\<close> and \<^verbatim>\<open>read\<close> are
  \<^verbatim>\<open>recvfrom\<close> without an address, \<^verbatim>\<open>send\<close> and \<^verbatim>\<open>write\<close> are \<^verbatim>\<open>sendto\<close> without one; \<^verbatim>\<open>getsockopt\<close>
  and the poll queries read the endpoint and change nothing.
\<close>

datatype op =
    New int sock_type StreamDir int int
  | SetPeer nat nat
  | Release nat
  | Bind nat sockaddr int
  | Listen nat int
  | Connect nat sockaddr int
  | Accept nat "errno option option" bool int int
  | Sendmsg nat msghdr int
  | Recvmsg nat msghdr int
  | Recvfrom nat "byte list" int bool bool
  | Sendto nat "byte list" int bool int
  | Setsockopt nat int int int "errno option" ret

fun exec :: "world \<Rightarrow> op \<Rightarrow> ret \<times> world" where
  "exec w (New ofl ty dir p u) =
     (Ret 0, w\<lparr>socks := (socks w)(nalloc w := LocalSocket_new ofl ty dir p u),
               nalloc := nalloc w + 1\<rparr>)"
| "exec w (SetPeer h p) = (Ret 0, set_peer w h p)"
| "exec w (Release h) = (Ret 0, release_last_ref w h)"
| "exec w (Bind h addr addrlen) = bind w h addr addrlen"
| "exec w (Listen h backlog) = listen w h backlog"
| "exec w (Connect h addr addrlen) = connect w h addr addrlen"
| "exec w (Accept h addr timed_out p u) =
     (let (r, written, w1) = accept w h addr timed_out p u in (r, w1))"
| "exec w (Sendmsg h msg flags) = sendmsg w h msg flags"
| "exec w (Recvmsg h msg flags) =
     (let (r, msg1, w1) = recvmsg w h msg flags in (r, w1))"
| "exec w (Recvfrom h buf flags addr addrlen) =
     (let (r, buf1, w1) = recvfrom w h buf flags addr addrlen in (r, w1))"
| "exec w (Sendto h buf flags dest_addr addrlen) = sendto w h buf flags dest_addr addrlen"
| "exec w (Setsockopt h level optname optval verify base) =
     setsockopt w h level optname optval verify base"

section \<open>Runs and scenarios\<close>

fun run :: "world \<Rightarrow> op list \<Rightarrow> world" where
  "run w [] = w"
| "run w (a # as) = run (snd (exec w a)) as"

text \<open>Whether an operation is a \<^verbatim>\<open>listen\<close> on the endpoint \<open>g\<close>.\<close>

fun is_listen_on :: "op \<Rightarrow> nat \<Rightarrow> bool" where
  "is_listen_on (Listen h backlog) g = (h = g)"
| "is_listen_on a g = False"

text \<open>
  The worlds of the examples: no endpoint yet and sixteen descriptors; then a stream
  socketpair, as \<^verbatim>\<open>socketpair(AF_UNIX, SOCK_STREAM)\<close> builds it (two endpoints paired with
  each other by \<^verbatim>\<open>set_peer\<close>); and the abstract address \<^verbatim>\<open>"\0a"\<close> of length 4.
\<close>

definition world0 :: world where
  "world0 = \<lparr>socks = (\<lambda>h. LocalSocket_new 0 SOCK_STREAM READ_WRITE 0 0), nalloc = 0,
             fd_table = Map.empty, fd_limit = 16, close_log = [],
             abstract_ns = Map.empty, logd_ns = Map.empty\<rparr>"

definition stream_pair :: world where
  "stream_pair = run world0 [New 0 SOCK_STREAM READ_WRITE 10 20,
                              New 0 SOCK_STREAM READ_WRITE 11 21, SetPeer 0 1, SetPeer 1 0]"

definition addr_a :: sockaddr where
  "addr_a = \<lparr>sa_family = 1, sun_path = [CHR 0x00, CHR ''a'']\<rparr>"

text \<open>
  The abstract address of length 3 whose name is empty: \<^verbatim>\<open>sun_path[0] == '\0'\<close> and nothing
  after it.
\<close>

definition addr_nul :: sockaddr where
  "addr_nul = \<lparr>sa_family = 1, sun_path = [CHR 0x00]\<rparr>"

text \<open>
  A file system whose three descriptors are all in use; on it a stream listener bound to
  \<^verbatim>\<open>"\0a"\<close> with backlog 2 and one fresh client endpoint; then the same with two clients
  blocked in \<^verbatim>\<open>connect\<close>.
\<close>

definition full_world :: world where
  "full_world = world0\<lparr>fd_table := [0 \<mapsto> 0, 1 \<mapsto> 1, 2 \<mapsto> 2], fd_limit := 3\<rparr>"

definition listener_one_client :: world where
  "listener_one_client =
     run full_world [New 0 SOCK_STREAM READ_WRITE 10 20, Bind 0 addr_a 4, Listen 0 2,
                     New 0 SOCK_STREAM READ_WRITE 11 21]"

definition listener_two_pending :: world where
  "listener_two_pending =
     run listener_one_client [Connect 1 addr_a 4, New 0 SOCK_STREAM READ_WRITE 12 22,
                              Connect 2 addr_a 4]"

text \<open>
  The listener with its two pending clients and a fresh third client endpoint: with the
  backlog 2 as it was, and after \<^verbatim>\<open>listen(1)\<close> has lowered the backlog under the size of the
  queue.
\<close>

definition listener_full :: world where
  "listener_full = run listener_two_pending [New 0 SOCK_STREAM READ_WRITE 13 23]"

definition listener_overfull :: world where
  "listener_overfull =
     run listener_two_pending [Listen 0 1, New 0 SOCK_STREAM READ_WRITE 13 23]"

text \<open>
  A stream socketpair whose end 0 has been released, and a pipe (a READ_ONLY and a
  WRITE_ONLY stream endpoint paired with each other) whose read end has been released.
\<close>

definition stream_half_closed :: world where
  "stream_half_closed = run stream_pair [Release 0]"

definition pipe_reader_gone :: world where
  "pipe_reader_gone =
     run world0 [New 0 SOCK_STREAM READ_ONLY 10 20, New 0 SOCK_STREAM WRITE_ONLY 10 20,
                 SetPeer 0 1, SetPeer 1 0, Release 0]"

text \<open>A message with one buffer of one byte and no control buffer.\<close>

definition msg_one :: msghdr where
  "msg_one = \<lparr>msg_iov = [[0]], msg_control = [], msg_controllen = 0, msg_flags = 0\<rparr>"




definition creds :: "LocalSocket \<Rightarrow> ucred \<times> ucred" where
  "creds s = (my_cred s, peer_cred s)"









text \<open>
  The control messages that \<^verbatim>\<open>HandleSendmsgLocked\<close> takes descriptors from, the descriptors
  each one carries, and the descriptors of a whole control buffer in order.
\<close>

definition is_rights :: "cmsghdr \<Rightarrow> bool" where
  "is_rights c \<longleftrightarrow>
     cmsg_level c = SOL_SOCKET \<and> cmsg_type c = SCM_RIGHTS \<and> CMSG_LEN 0 \<le> cmsg_len c"

definition wire_fds :: "cmsghdr \<Rightarrow> int list" where
  "wire_fds c = take ((cmsg_len c - CMSG_LEN 0) div sizeof_int) (cmsg_data c)"

definition rights_fds :: "cmsghdr list \<Rightarrow> int list" where
  "rights_fds cs = concat (map wire_fds (filter is_rights cs))"


text \<open>
  The test of \<^verbatim>\<open>recvmsg\<close> for a control message with \<open>k\<close> descriptors:
  \<^verbatim>\<open>CMSG_SPACE(cmsg_len) <= msg->msg_controllen\<close> with \<^verbatim>\<open>cmsg_len = CMSG_LEN(k * sizeof(int))\<close>.
\<close>

definition fits :: "nat \<Rightarrow> nat \<Rightarrow> bool" where
  "fits controllen k \<longleftrightarrow> CMSG_SPACE (CMSG_LEN (k * sizeof_int)) \<le> controllen"


text \<open>
  The stream socketpair on a file system where descriptors 0 and 1 are its two ends and
  descriptor 2 is some other open stream; messages of one payload byte that carry
  SCM_RIGHTS with descriptor 2 twice, an SCM_CREDENTIALS message, and SCM_RIGHTS with no
  descriptor; a receive buffer of one byte with a control buffer of \<open>n\<close> bytes; and the
  worlds after end 0 has sent the first and the third message.
\<close>

definition pair_with_file :: world where
  "pair_with_file = stream_pair\<lparr>fd_table := [0 \<mapsto> 0, 1 \<mapsto> 1, 2 \<mapsto> 9]\<rparr>"

definition msg_rights :: msghdr where
  "msg_rights = \<lparr>msg_iov = [[7]],
                 msg_control = [\<lparr>cmsg_len = CMSG_LEN 8, cmsg_level = 1, cmsg_type = 1,
                                 cmsg_data = [2, 2]\<rparr>],
                 msg_controllen = CMSG_SPACE 8, msg_flags = 0\<rparr>"

definition msg_cred :: msghdr where
  "msg_cred = \<lparr>msg_iov = [[7]],
               msg_control = [\<lparr>cmsg_len = CMSG_LEN 12, cmsg_level = 1, cmsg_type = 2,
                               cmsg_data = [10, 20, 20]\<rparr>],
               msg_controllen = CMSG_SPACE 12, msg_flags = 0\<rparr>"

definition msg_rights0 :: msghdr where
  "msg_rights0 = \<lparr>msg_iov = [[7]],
                  msg_control = [\<lparr>cmsg_len = CMSG_LEN 0, cmsg_level = 1, cmsg_type = 1,
                                  cmsg_data = []\<rparr>],
                  msg_controllen = CMSG_SPACE 0, msg_flags = 0\<rparr>"

definition msg_recv :: "nat \<Rightarrow> msghdr" where
  "msg_recv n = \<lparr>msg_iov = [[0]], msg_control = [], msg_controllen = n, msg_flags = 0\<rparr>"

definition rights_sent :: world where
  "rights_sent = run pair_with_file [Sendmsg 0 msg_rights 0]"

definition empty_rights_sent :: world where
  "empty_rights_sent = run pair_with_file [Sendmsg 0 msg_rights0 0]"

text \<open>
  A datagram socketpair, a message with the payload 1, 2, 3, the world after end 0 has
  sent it, and two receive messages: one buffer of two bytes, and no buffer at all.
\<close>

definition dgram_pair :: world where
  "dgram_pair = run world0 [New 0 SOCK_DGRAM READ_WRITE 10 20, New 0 SOCK_DGRAM READ_WRITE 11 21,
                            SetPeer 0 1, SetPeer 1 0]"

definition msg_abc :: msghdr where
  "msg_abc = \<lparr>msg_iov = [[1, 2, 3]], msg_control = [], msg_controllen = 0, msg_flags = 0\<rparr>"


definition abc_sent :: world where
  "abc_sent = run dgram_pair [Sendmsg 0 msg_abc 0]"

definition msg_two :: msghdr where
  "msg_two = \<lparr>msg_iov = [[0, 0]], msg_control = [], msg_controllen = 0, msg_flags = 0\<rparr>"

definition msg_none :: msghdr where
  "msg_none = \<lparr>msg_iov = [], msg_control = [], msg_controllen = 0, msg_flags = 0\<rparr>"

section \<open>Properties: frame lemmas\<close>

lemma socks_AddFileStreamLocked [simp]: "socks (snd (AddFileStreamLocked w h)) = socks w"
  by (simp add: AddFileStreamLocked_def split: option.splits)

lemma nalloc_AddFileStreamLocked [simp]: "nalloc (snd (AddFileStreamLocked w h)) = nalloc w"
  by (simp add: AddFileStreamLocked_def split: option.splits)

lemma socks_DupLocked [simp]: "socks (snd (DupLocked w fd)) = socks w"
  by (simp add: DupLocked_def split: option.splits)

lemma socks_CloseLocked [simp]: "socks (CloseLocked w fd) = socks w"
  by (simp add: CloseLocked_def)

lemma socks_dup_fds [simp]: "socks (snd (dup_fds w fds)) = socks w"
  by (induction fds arbitrary: w) (simp_all add: split_beta Let_def)

lemma socks_collect_fds [simp]: "socks (snd (collect_fds w cs)) = socks w"
  by (induction cs arbitrary: w) (simp_all add: split_beta Let_def)

lemma socks_close_unpassed [simp]: "socks (fst (close_unpassed w fds n fl)) = socks w"
proof (induction w fds n fl rule: close_unpassed.induct)
  case (1 w fds n fl)
  show ?case
    by (subst close_unpassed.simps) (simp add: 1)
qed

lemma nalloc_update_sock [simp]: "nalloc (update_sock w h f) = nalloc w"
  by (simp add: update_sock_def)

subsection \<open>Allocation only grows\<close>

lemma nalloc_DupLocked [simp]: "nalloc (snd (DupLocked w fd)) = nalloc w"
  by (simp add: DupLocked_def split: option.splits)

lemma nalloc_CloseLocked [simp]: "nalloc (CloseLocked w fd) = nalloc w"
  by (simp add: CloseLocked_def)

lemma nalloc_dup_fds [simp]: "nalloc (snd (dup_fds w fds)) = nalloc w"
  by (induction fds arbitrary: w) (simp_all add: split_beta Let_def)

lemma nalloc_collect_fds [simp]: "nalloc (snd (collect_fds w cs)) = nalloc w"
  by (induction cs arbitrary: w) (simp_all add: split_beta Let_def)

lemma nalloc_close_unpassed [simp]: "nalloc (fst (close_unpassed w fds n fl)) = nalloc w"
proof (induction w fds n fl rule: close_unpassed.induct)
  case (1 w fds n fl)
  show ?case
    by (subst close_unpassed.simps) (simp add: 1)
qed

lemma nalloc_set_peer [simp]: "nalloc (set_peer w h p) = nalloc w"
  by (simp add: set_peer_def)

lemma nalloc_release [simp]: "nalloc (release_last_ref w h) = nalloc w"
  by (simp add: release_last_ref_def OnLastFileRef_def Let_def split: option.splits)

lemma nalloc_bind [simp]: "nalloc (snd (bind w h addr n)) = nalloc w"
  by (simp add: bind_def Let_def split_beta split: option.splits)

lemma nalloc_listen [simp]: "nalloc (snd (listen w h b)) = nalloc w"
  by (simp add: listen_def Let_def)

lemma nalloc_setsockopt [simp]: "nalloc (snd (setsockopt w h l opt v ver base)) = nalloc w"
  by (simp add: setsockopt_def split: option.splits)

lemma nalloc_HandleSendmsgLocked [simp]:
  "nalloc (snd (HandleSendmsgLocked w r msg c)) = nalloc w"
  by (simp add: HandleSendmsgLocked_def Let_def split_beta)

lemma nalloc_sendmsg [simp]: "nalloc (snd (sendmsg w h msg fl)) = nalloc w"
  by (simp add: sendmsg_def Let_def split: option.splits)

lemma nalloc_recvmsg_control [simp]:
  "nalloc (snd (snd (recvmsg_control w s msg c))) = nalloc w"
  by (simp add: recvmsg_control_def Let_def split_beta split: list.splits)

lemma nalloc_recvmsg [simp]: "nalloc (snd (snd (recvmsg w h msg fl))) = nalloc w"
  by (simp add: recvmsg_def Let_def split_beta)

lemma nalloc_recvfrom [simp]: "nalloc (snd (snd (recvfrom w h buf fl a l))) = nalloc w"
  by (simp add: recvfrom_def Let_def split_beta)

lemma nalloc_sendto [simp]: "nalloc (snd (sendto w h buf fl a l)) = nalloc w"
  by (simp add: sendto_def)

lemma nalloc_HandleConnectLocked [simp]: "nalloc (snd (HandleConnectLocked w b c)) = nalloc w"
  by (simp add: HandleConnectLocked_def Let_def)

lemma nalloc_WaitForLocalSocketConnect [simp]:
  "nalloc (snd (WaitForLocalSocketConnect w h)) = nalloc w"
  by (simp add: WaitForLocalSocketConnect_def Let_def)

lemma nalloc_connect [simp]: "nalloc (snd (connect w h addr n)) = nalloc w"
  by (simp add: connect_def Let_def split_beta split: option.splits prod.splits)

lemma nalloc_accept: "nalloc w \<le> nalloc (snd (snd (accept w h addr t p u)))"
  by (simp add: accept_def Let_def split_beta split: option.splits list.splits)

lemma nalloc_exec: "nalloc w \<le> nalloc (snd (exec w a))"
  by (cases a) (simp_all add: split_beta nalloc_accept)

lemma nalloc_run: "nalloc w \<le> nalloc (run w as)"
proof (induction as arbitrary: w)
  case Nil
  show ?case by simp
next
  case (Cons a as)
  have "nalloc w \<le> nalloc (snd (exec w a))" by (rule nalloc_exec)
  also have "\<dots> \<le> nalloc (run (snd (exec w a)) as)" by (rule Cons)
  finally show ?case by simp
qed

subsection \<open>The connection state under each operation\<close>

lemma state_update_sock:
  "connect_state (socks (update_sock w h f) g) =
     (if g = h then connect_state (f (socks w h)) else connect_state (socks w g))"
  by (simp add: update_sock_def)

lemma state_set_peer:
  "connect_state (socks (set_peer w h p) g) =
     (if g = h then SOCKET_CONNECTED else connect_state (socks w g))"
  by (simp add: set_peer_def update_sock_def)

lemma state_release: "connect_state (socks (release_last_ref w h) g) = connect_state (socks w g)"
  by (simp add: release_last_ref_def OnLastFileRef_def update_sock_def Let_def split: option.splits)

lemma state_bind: "connect_state (socks (snd (bind w h addr n)) g) = connect_state (socks w g)"
  by (simp add: bind_def update_sock_def Let_def split_beta split: option.splits)

lemma state_setsockopt:
  "connect_state (socks (snd (setsockopt w h l opt v ver base)) g) = connect_state (socks w g)"
  by (simp add: setsockopt_def update_sock_def split: option.splits)

lemma state_HandleSendmsgLocked:
  "connect_state (socks (snd (HandleSendmsgLocked w r msg c)) g) = connect_state (socks w g)"
  by (simp add: HandleSendmsgLocked_def Let_def split_beta)

lemma state_sendmsg:
  "connect_state (socks (snd (sendmsg w h msg fl)) g) = connect_state (socks w g)"
  by (simp add: sendmsg_def Let_def state_HandleSendmsgLocked split: option.splits)

lemma state_recvmsg_payload:
  "connect_state (snd (snd (snd (recvmsg_payload s msg)))) = connect_state s"
  by (simp add: recvmsg_payload_def Let_def split_beta split: list.splits)

lemma state_recvmsg_control:
  "connect_state (fst (snd (recvmsg_control w s msg c))) = connect_state s"
  by (simp add: recvmsg_control_def Let_def split_beta split: list.splits)

lemma socks_recvmsg_control:
  "socks (snd (snd (recvmsg_control w s msg c))) = socks w"
  by (simp add: recvmsg_control_def Let_def split_beta split: list.splits)

lemma state_recvmsg:
  "connect_state (socks (snd (snd (recvmsg w h msg fl))) g) = connect_state (socks w g)"
  by (simp add: recvmsg_def Let_def split_beta state_recvmsg_payload state_recvmsg_control
      socks_recvmsg_control)

lemma state_recvfrom:
  "connect_state (socks (snd (snd (recvfrom w h buf fl a l))) g) = connect_state (socks w g)"
  by (simp add: recvfrom_def Let_def split_beta state_recvmsg)

lemma state_sendto:
  "connect_state (socks (snd (sendto w h buf fl a l)) g) = connect_state (socks w g)"
  by (simp add: sendto_def state_sendmsg)

lemma state_HandleConnectLocked:
  "connect_state (socks (snd (HandleConnectLocked w b c)) g) = connect_state (socks w g)"
  by (simp add: HandleConnectLocked_def update_sock_def Let_def)

lemma state_WaitForLocalSocketConnect:
  "g \<noteq> h \<Longrightarrow>
   connect_state (socks (snd (WaitForLocalSocketConnect w h)) g) = connect_state (socks w g)"
  by (simp add: WaitForLocalSocketConnect_def update_sock_def Let_def)

lemma state_connect:
  assumes "connect_state (socks w g) = SOCKET_CONNECTED"
  shows "connect_state (socks (snd (connect w h addr n)) g) = SOCKET_CONNECTED"
proof (cases "g = h")
  case True
  with assms show ?thesis by (simp add: connect_def)
next
  case False
  have upd: "\<And>w' f. connect_state (socks (update_sock w' h f) g) = connect_state (socks w' g)"
    using False by (simp add: update_sock_def)
  show ?thesis
    using assms False
    by (simp add: connect_def Let_def split_beta state_WaitForLocalSocketConnect upd
        state_HandleConnectLocked split: option.splits prod.splits)
qed

lemma state_accept:
  assumes "connect_state (socks w g) = SOCKET_CONNECTED" and "g < nalloc w"
  shows "connect_state (socks (snd (snd (accept w h addr t p u))) g) = SOCKET_CONNECTED"
proof (cases "g = h")
  case True
  with assms show ?thesis
    by (simp add: accept_def Let_def split: option.splits)
next
  case False
  with assms show ?thesis
    by (simp add: accept_def Let_def split_beta state_update_sock state_set_peer
        split: option.splits list.splits)
qed

lemma state_listen:
  "connect_state (socks (snd (listen w h backlog)) g) =
     (if g = h \<and> socket_type (socks w h) \<noteq> SOCK_DGRAM
         \<and> (abstract_name (socks w h) \<noteq> [] \<or> logd_name (socks w h) \<noteq> [])
      then SOCKET_LISTENING else connect_state (socks w g))"
  by (auto simp add: listen_def Let_def state_update_sock)

lemmas scenario_defs =
  connect_lookup_def world0_def stream_pair_def addr_a_def LocalSocket_new_def set_peer_def update_sock_def
  bind_def listen_def ValidateSockaddr_def ConvertSockaddrToName_def
  ConvertSockaddrToAbstractName_def sun_bytes_def ns_Bind_def AF_UNIX_def kSunPathOffset_def

section \<open>Properties: the claims\<close>

lemma state_exec:
  assumes "connect_state (socks w g) = SOCKET_CONNECTED" and "g < nalloc w"
  shows "connect_state (socks (snd (exec w a)) g) =
           (if is_listen_on a g \<and> socket_type (socks w g) \<noteq> SOCK_DGRAM
               \<and> (abstract_name (socks w g) \<noteq> [] \<or> logd_name (socks w g) \<noteq> [])
            then SOCKET_LISTENING else SOCKET_CONNECTED)"
proof (cases a)
  case (New ofl ty dir p u)
  with assms show ?thesis by simp
next
  case (SetPeer h p)
  with assms show ?thesis by (simp add: state_set_peer)
next
  case (Release h)
  with assms show ?thesis by (simp add: state_release)
next
  case (Bind h addr n)
  with assms show ?thesis by (simp add: state_bind)
next
  case (Listen h backlog)
  with assms show ?thesis by (auto simp add: state_listen)
next
  case (Connect h addr n)
  with assms show ?thesis by (simp add: state_connect)
next
  case (Accept h addr t p u)
  with assms show ?thesis by (simp add: split_beta state_accept)
next
  case (Sendmsg h msg fl)
  with assms show ?thesis by (simp add: state_sendmsg)
next
  case (Recvmsg h msg fl)
  with assms show ?thesis by (simp add: split_beta state_recvmsg)
next
  case (Recvfrom h buf fl a l)
  with assms show ?thesis by (simp add: split_beta state_recvfrom)
next
  case (Sendto h buf fl a l)
  with assms show ?thesis by (simp add: state_sendto)
next
  case (Setsockopt h l opt v ver base)
  with assms show ?thesis by (simp add: state_setsockopt)
qed

lemma state_run:
  assumes "connect_state (socks w g) = SOCKET_CONNECTED" and "g < nalloc w"
    and "\<forall>a\<in>set as. \<not> is_listen_on a g"
  shows "connect_state (socks (run w as) g) = SOCKET_CONNECTED"
  using assms
proof (induction as arbitrary: w)
  case Nil
  then show ?case by simp
next
  case (Cons a as)
  have 1: "connect_state (socks (snd (exec w a)) g) = SOCKET_CONNECTED"
    using state_exec [OF Cons.prems(1,2), of a] Cons.prems(3) by simp
  have 2: "g < nalloc (snd (exec w a))"
    using Cons.prems(2) nalloc_exec [of w a] by simp
  from Cons.IH [OF 1 2] Cons.prems(3) show ?case by simp
qed


text \<open>
  C5 (as amended). Once an endpoint is CONNECTED, no operation moves it to another state
  except \<^verbatim>\<open>listen\<close> on that endpoint: \<^verbatim>\<open>listen\<close> checks only the socket type and the bound
  names, so on a CONNECTED stream or seqpacket endpoint that has a name it sets the state
  to LISTENING. Every other operation (construction of another endpoint, pairing, release,
  bind, connect, accept, sendmsg, recvmsg, recvfrom, sendto, setsockopt), run on this or on
  any other endpoint, leaves the state CONNECTED, and so does every run of operations
  without a
  \<^verbatim>\<open>listen\<close> on the endpoint; a cleared peer only means half-closed.
\<close>

theorem connected_left_only_by_listen:
  assumes "connect_state (socks w g) = SOCKET_CONNECTED" and "g < nalloc w"
  shows "connect_state (socks (snd (exec w a)) g) =
           (if is_listen_on a g \<and> socket_type (socks w g) \<noteq> SOCK_DGRAM
               \<and> (abstract_name (socks w g) \<noteq> [] \<or> logd_name (socks w g) \<noteq> [])
            then SOCKET_LISTENING else SOCKET_CONNECTED)
       \<and> ((\<forall>a\<in>set as. \<not> is_listen_on a g) \<longrightarrow>
            connect_state (socks (run w as) g) = SOCKET_CONNECTED)"
  using state_exec [OF assms] state_run [OF assms] by blast

text \<open>
  A run of the theorem: end 0 of a stream socketpair is CONNECTED and stays so under a
  bind to \<^verbatim>\<open>"\0a"\<close>, the release of end 1 and a send; it is half-closed then.
\<close>

theorem connected_left_only_by_listen_witness:
  "connect_state (socks stream_pair 0) = SOCKET_CONNECTED \<and> 0 < nalloc stream_pair
   \<and> connect_state (socks (snd (exec stream_pair (Bind 0 addr_a 4))) 0) = SOCKET_CONNECTED
   \<and> connect_state
        (socks (run stream_pair [Bind 0 addr_a 4, Release 1, Sendmsg 0 msg_one 0]) 0)
       = SOCKET_CONNECTED
   \<and> peer (socks (run stream_pair [Bind 0 addr_a 4, Release 1, Sendmsg 0 msg_one 0]) 0) = None"
proof -
  have c: "connect_state (socks stream_pair 0) = SOCKET_CONNECTED"
    by (simp add: scenario_defs)
  have n: "0 < nalloc stream_pair"
    by (simp add: scenario_defs)
  have l: "\<forall>a\<in>set [Bind 0 addr_a 4, Release 1, Sendmsg 0 msg_one 0]. \<not> is_listen_on a 0"
    by simp
  have p: "peer (socks (run stream_pair [Bind 0 addr_a 4, Release 1, Sendmsg 0 msg_one 0]) 0)
           = None"
    by (simp add: scenario_defs release_last_ref_def OnLastFileRef_def sendmsg_def Let_def)
  from connected_left_only_by_listen [OF c n, of "Bind 0 addr_a 4"
      "[Bind 0 addr_a 4, Release 1, Sendmsg 0 msg_one 0]"] l c n p
  show ?thesis by simp
qed

text \<open>
  The claim as it was stated ("no operation, in particular listen, bind or connect, ever
  moves a CONNECTED endpoint to another state") fails: one end of a stream socketpair is
  CONNECTED, \<^verbatim>\<open>bind\<close> to \<^verbatim>\<open>"\0a"\<close> succeeds on it, and \<^verbatim>\<open>listen(1)\<close> then returns 0 and leaves it
  LISTENING.
\<close>

theorem connected_then_listen_counterexample:
  "connect_state (socks (run stream_pair [Bind 0 addr_a 4]) 0) = SOCKET_CONNECTED
   \<and> fst (exec stream_pair (Bind 0 addr_a 4)) = Ret 0
   \<and> fst (exec (run stream_pair [Bind 0 addr_a 4]) (Listen 0 1)) = Ret 0
   \<and> connect_state (socks (run stream_pair [Bind 0 addr_a 4, Listen 0 1]) 0)
       = SOCKET_LISTENING"
  by (simp add: scenario_defs)

text \<open>
  C10. \<^verbatim>\<open>recvfrom\<close> with a non-null source address or a non-null address-length pointer
  fails with EINVAL, and \<^verbatim>\<open>sendto\<close> with a non-null destination address or a non-zero
  address length fails with EINVAL; in both cases the world, and so every endpoint, and
  the caller's buffer are as before.
\<close>

theorem recvfrom_sendto_reject_address:
  "(addr \<or> addrlen \<longrightarrow> recvfrom w h buf flags addr addrlen = (Fail EINVAL, buf, w))
   \<and> (dest_addr \<or> len \<noteq> 0 \<longrightarrow> sendto w h buf flags dest_addr len = (Fail EINVAL, w))"
  by (simp add: recvfrom_def sendto_def)

theorem recvfrom_sendto_reject_address_witness:
  "(False \<or> True) \<and> recvfrom stream_pair 0 [0, 0] 0 False True = (Fail EINVAL, [0, 0], stream_pair)
   \<and> (False \<or> (5::int) \<noteq> 0) \<and> sendto stream_pair 0 [0, 0] 0 False 5 = (Fail EINVAL, stream_pair)"
  using recvfrom_sendto_reject_address [of False True stream_pair 0 "[0, 0]" 0 False 5]
  by simp

lemmas run_defs =
  scenario_defs addr_nul_def full_world_def listener_one_client_def listener_two_pending_def
  stream_half_closed_def pipe_reader_gone_def msg_one_def
  connect_def HandleConnectLocked_def WaitForLocalSocketConnect_def is_block_def O_NONBLOCK_def
  size_t_of_int_def release_last_ref_def OnLastFileRef_def Let_def

subsection \<open>accept without a free descriptor\<close>

lemma AddFileStreamLocked_full:
  "GetFirstUnusedDescriptor w = None \<Longrightarrow> AddFileStreamLocked w h = (- 1, w)"
  by (simp add: AddFileStreamLocked_def)

lemma GetFirstUnusedDescriptor_update_sock [simp]:
  "GetFirstUnusedDescriptor (update_sock w h f) = GetFirstUnusedDescriptor w"
  by (simp add: GetFirstUnusedDescriptor_def update_sock_def)

text \<open>
  C9 (as amended). When the descriptor table has no free descriptor, an \<^verbatim>\<open>accept\<close> that
  reaches the creation of the server endpoint returns EMFILE. Before that it has popped
  from the head of the pending queue the connects that were closed in the meantime, and
  that is all it has changed: the first pending client that is not closed is at the head
  of the queue, every endpoint has the connection state and the peer it had (the client
  stays CONNECTING, no peer link is made), and when the queue had no closed client at its
  head the whole world is unchanged.
\<close>

theorem accept_fd_exhaustion:
  assumes "socket_type (socks w h) \<noteq> SOCK_DGRAM"
    and "addr = None \<or> addr = Some None"
    and "connect_state (socks w h) = SOCKET_LISTENING"
    and "is_block (socks w h)"
    and "\<not> closed (socks w h)"
    and "skip_closed w (connection_queue (socks w h)) = c # rest"
    and "GetFirstUnusedDescriptor w = None"
  shows "accept w h addr t p u =
           (Fail EMFILE, False, update_sock w h (\<lambda>s. s\<lparr>connection_queue := c # rest\<rparr>))
         \<and> (\<forall>g. connect_state (socks (snd (snd (accept w h addr t p u))) g)
                   = connect_state (socks w g)
                 \<and> peer (socks (snd (snd (accept w h addr t p u))) g) = peer (socks w g))
         \<and> (connection_queue (socks w h) = c # rest \<longrightarrow>
              snd (snd (accept w h addr t p u)) = w)"
proof -
  have r: "accept w h addr t p u =
           (Fail EMFILE, False, update_sock w h (\<lambda>s. s\<lparr>connection_queue := c # rest\<rparr>))"
    using assms
    by (auto simp add: accept_def Let_def AddFileStreamLocked_full)
  have same: "update_sock w h (\<lambda>s. s\<lparr>connection_queue := c # rest\<rparr>) = w"
    if q: "connection_queue (socks w h) = c # rest"
  proof -
    have "socks w h\<lparr>connection_queue := connection_queue (socks w h)\<rparr> = socks w h"
      by simp
    then have "socks w h\<lparr>connection_queue := c # rest\<rparr> = socks w h"
      by (simp only: q)
    then show ?thesis by (simp add: update_sock_def)
  qed
  have frame: "\<forall>g. connect_state (socks (update_sock w h (\<lambda>s. s\<lparr>connection_queue := c # rest\<rparr>)) g)
                   = connect_state (socks w g)
                 \<and> peer (socks (update_sock w h (\<lambda>s. s\<lparr>connection_queue := c # rest\<rparr>)) g)
                   = peer (socks w g)"
    by (simp add: update_sock_def)
  show ?thesis
    using same frame by (simp add: r)
qed

text \<open>
  A run of the theorem: the listener with two live pending clients, on the file system
  without a free descriptor. The accept fails with EMFILE and the world is as before.
\<close>

theorem accept_fd_exhaustion_witness:
  "fst (accept listener_two_pending 0 None False 13 23) = Fail EMFILE
   \<and> connection_queue (socks listener_two_pending 0) = [1, 2]
   \<and> connect_state (socks listener_two_pending 1) = SOCKET_CONNECTING
   \<and> snd (snd (accept listener_two_pending 0 None False 13 23)) = listener_two_pending"
proof -
  have 1: "socket_type (socks listener_two_pending 0) \<noteq> SOCK_DGRAM"
    by (simp add: run_defs)
  have 2: "(None :: errno option option) = None \<or> (None :: errno option option) = Some None"
    by simp
  have 3: "connect_state (socks listener_two_pending 0) = SOCKET_LISTENING"
    by (simp add: run_defs)
  have 4: "is_block (socks listener_two_pending 0)"
    by (simp add: run_defs)
  have 5: "\<not> closed (socks listener_two_pending 0)"
    by (simp add: run_defs)
  have q: "connection_queue (socks listener_two_pending 0) = [1, 2]"
    by (simp add: run_defs)
  have 6: "skip_closed listener_two_pending (connection_queue (socks listener_two_pending 0))
             = 1 # [2]"
    by (simp add: run_defs skip_closed_def)
  have 7: "GetFirstUnusedDescriptor listener_two_pending = None"
    by (simp add: run_defs GetFirstUnusedDescriptor_def upt_rec)
  have 8: "connect_state (socks listener_two_pending 1) = SOCKET_CONNECTING"
    by (simp add: run_defs)
  note th = accept_fd_exhaustion [OF 1 2 3 4 5 6 7, of False 13 23]
  from th have a: "fst (accept listener_two_pending 0 None False 13 23) = Fail EMFILE"
    by simp
  from th q have c: "snd (snd (accept listener_two_pending 0 None False 13 23))
                      = listener_two_pending"
    by blast
  show ?thesis
    by (intro conjI a c q 8)
qed

text \<open>
  The claim as it was stated ("the listener's pending-connection queue is unchanged, the
  head client remains queued") fails when the client at the head has been closed while it
  waited: the queue is \<open>[1, 2]\<close>, client 1 is closed, the accept fails with EMFILE, and the
  queue is \<open>[2]\<close> afterwards.
\<close>

theorem accept_fd_exhaustion_counterexample:
  "connection_queue (socks (run listener_two_pending [Release 1]) 0) = [1, 2]
   \<and> fst (accept (run listener_two_pending [Release 1]) 0 None False 13 23) = Fail EMFILE
   \<and> connection_queue
        (socks (snd (snd (accept (run listener_two_pending [Release 1]) 0 None False 13 23))) 0)
       = [2]"
  by (simp add: run_defs accept_def skip_closed_def AddFileStreamLocked_def
      GetFirstUnusedDescriptor_def upt_rec)

subsection \<open>connect and the backlog\<close>

text \<open>
  C4. The claim: the client is enqueued when the size of the target's pending queue is
  strictly less than the recorded backlog, and otherwise \<^verbatim>\<open>connect\<close> fails with ECONNREFUSED
  and the queue is unchanged. \<^verbatim>\<open>HandleConnectLocked\<close> refuses under the test
  \<^verbatim>\<open>connection_backlog_ == connection_queue_.size()\<close>, which it logs as "queue full". For a
  stream or seqpacket \<^verbatim>\<open>connect\<close> that reaches a LISTENING endpoint of its own socket type
  whose backlog is a non-negative \<^verbatim>\<open>int\<close>: with the size below the backlog the client is
  appended, becomes CONNECTING and waits; with the size equal to the backlog the call
  fails with ECONNREFUSED and nothing changes; but with the size above the backlog (a
  later \<^verbatim>\<open>listen\<close> can lower the backlog under the size) the equality does not hold and the
  client is appended to the full queue instead of being refused.
\<close>

theorem connect_backlog:
  assumes "socket_type (socks w h) \<noteq> SOCK_DGRAM"
    and "connect_state (socks w h) \<noteq> SOCKET_CONNECTED"
    and "connect_state (socks w h) \<noteq> SOCKET_LISTENING"
    and "is_block (socks w h)"
    and "ValidateSockaddr addr n"
    and "connect_lookup w addr n = Some (Some b, logd)"
    and "socket_type (socks w b) = socket_type (socks w h)"
    and "connect_state (socks w b) = SOCKET_LISTENING"
    and "0 \<le> connection_backlog (socks w b)"
    and "connection_backlog (socks w b) < 2 ^ 31"
  shows "(int (length (connection_queue (socks w b))) < connection_backlog (socks w b) \<longrightarrow>
          fst (connect w h addr n) = Blocked
          \<and> connection_queue (socks (snd (connect w h addr n)) b)
              = connection_queue (socks w b) @ [h]
          \<and> connect_state (socks (snd (connect w h addr n)) h) = SOCKET_CONNECTING)
       \<and> (int (length (connection_queue (socks w b))) = connection_backlog (socks w b) \<longrightarrow>
          connect w h addr n = (Fail ECONNREFUSED, w))
       \<and> (connection_backlog (socks w b) < int (length (connection_queue (socks w b))) \<longrightarrow>
          fst (connect w h addr n) = Blocked
          \<and> connection_queue (socks (snd (connect w h addr n)) b)
              = connection_queue (socks w b) @ [h]
          \<and> connect_state (socks (snd (connect w h addr n)) h) = SOCKET_CONNECTING)"
proof -
  have hb: "h \<noteq> b" using assms by auto
  have ty: "socket_type (socks w b) = SOCK_STREAM \<or> socket_type (socks w b) = SOCK_SEQPACKET"
    using assms by (cases "socket_type (socks w b)") auto
  have ty': "socket_type (socks w h) = SOCK_STREAM \<or> socket_type (socks w h) = SOCK_SEQPACKET"
    using assms ty by simp
  have sz: "size_t_of_int (connection_backlog (socks w b)) = connection_backlog (socks w b)"
    using assms(9,10) by (simp add: size_t_of_int_def)
  show ?thesis
    using assms(1-8) hb ty ty'
    by (auto simp add: connect_def Let_def HandleConnectLocked_def
        WaitForLocalSocketConnect_def update_sock_def sz)
qed

text \<open>
  Three runs of the theorem on a listener bound to \<^verbatim>\<open>"\0a"\<close>. With backlog 2 and an empty
  queue the first client is appended. With backlog 2 and two clients pending the third is
  refused. With the same two clients pending after \<^verbatim>\<open>listen(1)\<close>, so that no space remains
  (the size 2 is not less than the backlog 1), the third client is not refused: it is
  appended and waits.
\<close>

theorem connect_backlog_witness:
  "connection_queue (socks listener_one_client 0) = []
   \<and> connection_backlog (socks listener_one_client 0) = 2
   \<and> fst (connect listener_one_client 1 addr_a 4) = Blocked
   \<and> connection_queue (socks (snd (connect listener_one_client 1 addr_a 4)) 0) = [1]
   \<and> connection_queue (socks listener_full 0) = [1, 2]
   \<and> connection_backlog (socks listener_full 0) = 2
   \<and> connect listener_full 3 addr_a 4 = (Fail ECONNREFUSED, listener_full)
   \<and> connection_queue (socks listener_overfull 0) = [1, 2]
   \<and> connection_backlog (socks listener_overfull 0) = 1
   \<and> connect_state (socks listener_overfull 0) = SOCKET_LISTENING
   \<and> fst (connect listener_overfull 3 addr_a 4) = Blocked
   \<and> connection_queue (socks (snd (connect listener_overfull 3 addr_a 4)) 0) = [1, 2, 3]
   \<and> connect_state (socks (snd (connect listener_overfull 3 addr_a 4)) 3) = SOCKET_CONNECTING"
proof -
  have a: "socket_type (socks listener_one_client 1) \<noteq> SOCK_DGRAM"
    "connect_state (socks listener_one_client 1) \<noteq> SOCKET_CONNECTED"
    "connect_state (socks listener_one_client 1) \<noteq> SOCKET_LISTENING"
    "is_block (socks listener_one_client 1)"
    "ValidateSockaddr addr_a 4"
    "connect_lookup listener_one_client addr_a 4 = Some (Some 0, [])"
    "socket_type (socks listener_one_client 0) = socket_type (socks listener_one_client 1)"
    "connect_state (socks listener_one_client 0) = SOCKET_LISTENING"
    "0 \<le> connection_backlog (socks listener_one_client 0)"
    "connection_backlog (socks listener_one_client 0) < 2 ^ 31"
    by (simp_all add: run_defs)
  have aq: "connection_queue (socks listener_one_client 0) = []"
    "connection_backlog (socks listener_one_client 0) = 2"
    by (simp_all add: run_defs)
  have b: "socket_type (socks listener_full 3) \<noteq> SOCK_DGRAM"
    "connect_state (socks listener_full 3) \<noteq> SOCKET_CONNECTED"
    "connect_state (socks listener_full 3) \<noteq> SOCKET_LISTENING"
    "is_block (socks listener_full 3)"
    "ValidateSockaddr addr_a 4"
    "connect_lookup listener_full addr_a 4 = Some (Some 0, [])"
    "socket_type (socks listener_full 0) = socket_type (socks listener_full 3)"
    "connect_state (socks listener_full 0) = SOCKET_LISTENING"
    "0 \<le> connection_backlog (socks listener_full 0)"
    "connection_backlog (socks listener_full 0) < 2 ^ 31"
    by (simp_all add: run_defs listener_full_def)
  have bq: "connection_queue (socks listener_full 0) = [1, 2]"
    "connection_backlog (socks listener_full 0) = 2"
    by (simp_all add: run_defs listener_full_def)
  have c: "socket_type (socks listener_overfull 3) \<noteq> SOCK_DGRAM"
    "connect_state (socks listener_overfull 3) \<noteq> SOCKET_CONNECTED"
    "connect_state (socks listener_overfull 3) \<noteq> SOCKET_LISTENING"
    "is_block (socks listener_overfull 3)"
    "ValidateSockaddr addr_a 4"
    "connect_lookup listener_overfull addr_a 4 = Some (Some 0, [])"
    "socket_type (socks listener_overfull 0) = socket_type (socks listener_overfull 3)"
    "connect_state (socks listener_overfull 0) = SOCKET_LISTENING"
    "0 \<le> connection_backlog (socks listener_overfull 0)"
    "connection_backlog (socks listener_overfull 0) < 2 ^ 31"
    by (simp_all add: run_defs listener_overfull_def)
  have cq: "connection_queue (socks listener_overfull 0) = [1, 2]"
    "connection_backlog (socks listener_overfull 0) = 1"
    by (simp_all add: run_defs listener_overfull_def)
  from connect_backlog [OF a] aq
  have 1: "fst (connect listener_one_client 1 addr_a 4) = Blocked
         \<and> connection_queue (socks (snd (connect listener_one_client 1 addr_a 4)) 0) = [1]"
    by simp
  from connect_backlog [OF b] bq
  have 2: "connect listener_full 3 addr_a 4 = (Fail ECONNREFUSED, listener_full)"
    by simp
  from connect_backlog [OF c] cq
  have 3: "fst (connect listener_overfull 3 addr_a 4) = Blocked
         \<and> connection_queue (socks (snd (connect listener_overfull 3 addr_a 4)) 0) = [1, 2, 3]
         \<and> connect_state (socks (snd (connect listener_overfull 3 addr_a 4)) 3)
             = SOCKET_CONNECTING"
    by simp
  from aq bq cq c(8) 1 2 3 show ?thesis by simp
qed

subsection \<open>bind\<close>

lemma bind_second_fails:
  "abstract_name (socks w h) \<noteq> [] \<or> logd_name (socks w h) \<noteq> [] \<Longrightarrow>
   bind w h addr n = (Fail EINVAL, w)"
  by (auto simp add: bind_def Let_def)

text \<open>
  C6. The claim: after a successful bind every later bind on the endpoint fails with
  EINVAL. The code tells a bound endpoint by a non-empty name (lemma \<open>bind_second_fails\<close>),
  and the abstract address of length \<^verbatim>\<open>offsetof(sun_path) + 1\<close> has the empty name. On an
  endpoint without a name, when the empty name and the name \<^verbatim>\<open>"a"\<close> are free in the abstract
  namespace, the bind to that address returns 0, registers the empty name and leaves
  \<^verbatim>\<open>abstract_name_\<close> empty, and the bind to \<^verbatim>\<open>"\0a"\<close> after it returns 0 as well.
\<close>

theorem bind_twice_after_empty_name:
  assumes "abstract_name (socks w h) = []" and "logd_name (socks w h) = []"
    and "abstract_ns w [] = None" and "abstract_ns w ''a'' = None"
  shows "fst (bind w h addr_nul 3) = Ret 0
       \<and> abstract_ns (snd (bind w h addr_nul 3)) [] = Some h
       \<and> abstract_name (socks (snd (bind w h addr_nul 3)) h) = []
       \<and> fst (bind (snd (bind w h addr_nul 3)) h addr_a 4) = Ret 0
       \<and> abstract_name (socks (snd (bind (snd (bind w h addr_nul 3)) h addr_a 4)) h) = ''a''"
  using assms
  by (simp add: bind_def Let_def ValidateSockaddr_def ConvertSockaddrToName_def
      ConvertSockaddrToAbstractName_def sun_bytes_def ns_Bind_def AF_UNIX_def
      kSunPathOffset_def addr_nul_def addr_a_def update_sock_def)

text \<open>A run of the theorem, on a freshly constructed stream endpoint.\<close>

theorem bind_twice_after_empty_name_witness:
  "abstract_name (socks (run world0 [New 0 SOCK_STREAM READ_WRITE 10 20]) 0) = []
   \<and> logd_name (socks (run world0 [New 0 SOCK_STREAM READ_WRITE 10 20]) 0) = []
   \<and> fst (bind (run world0 [New 0 SOCK_STREAM READ_WRITE 10 20]) 0 addr_nul 3) = Ret 0
   \<and> fst (bind (snd (bind (run world0 [New 0 SOCK_STREAM READ_WRITE 10 20]) 0 addr_nul 3))
            0 addr_a 4) = Ret 0"
proof -
  have 1: "abstract_name (socks (run world0 [New 0 SOCK_STREAM READ_WRITE 10 20]) 0) = []"
    by (simp add: run_defs)
  have 2: "logd_name (socks (run world0 [New 0 SOCK_STREAM READ_WRITE 10 20]) 0) = []"
    by (simp add: run_defs)
  have 3: "abstract_ns (run world0 [New 0 SOCK_STREAM READ_WRITE 10 20]) [] = None"
    by (simp add: run_defs)
  have 4: "abstract_ns (run world0 [New 0 SOCK_STREAM READ_WRITE 10 20]) ''a'' = None"
    by (simp add: run_defs)
  from bind_twice_after_empty_name [OF 1 2 3 4] 1 2
  show ?thesis by blast
qed

subsection \<open>A half-closed endpoint\<close>

text \<open>
  C7 (as amended). On a stream or seqpacket endpoint that is CONNECTED with no peer,
  \<^verbatim>\<open>recvmsg\<close> with an empty receive buffer (the ring of a stream endpoint, the datagram queue
  of a seqpacket endpoint) returns 0, and \<^verbatim>\<open>sendmsg\<close> fails with ECONNRESET whatever the
  payload, provided the direction of the endpoint allows the call. The direction is
  tested first: \<^verbatim>\<open>recvmsg\<close> on a WRITE_ONLY endpoint and \<^verbatim>\<open>sendmsg\<close> on a READ_ONLY endpoint (the
  two ends of a pipe) fail with EBADF.
\<close>

theorem half_closed_recv_send:
  assumes "socket_type (socks w h) \<noteq> SOCK_DGRAM"
    and "connect_state (socks w h) = SOCKET_CONNECTED"
    and "peer (socks w h) = None"
  shows "(stream_dir (socks w h) \<noteq> WRITE_ONLY
            \<and> (if socket_type (socks w h) = SOCK_STREAM then cb_size (buffer (socks w h)) = 0
                else queue (socks w h) = []) \<longrightarrow>
          fst (recvmsg w h msg flags) = Ret 0)
       \<and> (stream_dir (socks w h) = WRITE_ONLY \<longrightarrow>
          recvmsg w h msg flags = (Fail EBADF, msg, w))
       \<and> (stream_dir (socks w h) \<noteq> READ_ONLY \<longrightarrow>
          sendmsg w h msg' flags' = (Fail ECONNRESET, w))
       \<and> (stream_dir (socks w h) = READ_ONLY \<longrightarrow>
          sendmsg w h msg' flags' = (Fail EBADF, w))"
  using assms
  by (auto simp add: recvmsg_def sendmsg_def recvmsg_waits_def recvmsg_payload_def Let_def)

text \<open>
  A run of the theorem: end 1 of a stream socketpair after end 0 was released.
\<close>

theorem half_closed_recv_send_witness:
  "socket_type (socks stream_half_closed 1) \<noteq> SOCK_DGRAM
   \<and> connect_state (socks stream_half_closed 1) = SOCKET_CONNECTED
   \<and> peer (socks stream_half_closed 1) = None
   \<and> stream_dir (socks stream_half_closed 1) = READ_WRITE
   \<and> cb_size (buffer (socks stream_half_closed 1)) = 0
   \<and> fst (recvmsg stream_half_closed 1 msg_one 0) = Ret 0
   \<and> sendmsg stream_half_closed 1 msg_one 0 = (Fail ECONNRESET, stream_half_closed)"
proof -
  have 1: "socket_type (socks stream_half_closed 1) \<noteq> SOCK_DGRAM"
    by (simp add: run_defs)
  have 2: "connect_state (socks stream_half_closed 1) = SOCKET_CONNECTED"
    by (simp add: run_defs)
  have 3: "peer (socks stream_half_closed 1) = None"
    by (simp add: run_defs)
  have 4: "stream_dir (socks stream_half_closed 1) = READ_WRITE"
    by (simp add: run_defs)
  have 5: "socket_type (socks stream_half_closed 1) = SOCK_STREAM"
    by (simp add: run_defs)
  have 6: "cb_size (buffer (socks stream_half_closed 1)) = 0"
    by (simp add: run_defs cb_size_def)
  from half_closed_recv_send [OF 1 2 3, of msg_one 0 msg_one 0] 1 2 3 4 5 6
  show ?thesis by simp
qed

text \<open>
  The claim as it was stated ("for every STREAM endpoint whose peer has been closed,
  recvmsg with an empty receive buffer returns 0") fails on the write end of a pipe whose
  read end was released: it is a stream endpoint, CONNECTED, without a peer and with an
  empty ring, and \<^verbatim>\<open>recvmsg\<close> on it fails with EBADF.
\<close>

theorem half_closed_pipe_counterexample:
  "socket_type (socks pipe_reader_gone 1) = SOCK_STREAM
   \<and> connect_state (socks pipe_reader_gone 1) = SOCKET_CONNECTED
   \<and> peer (socks pipe_reader_gone 1) = None
   \<and> cb_size (buffer (socks pipe_reader_gone 1)) = 0
   \<and> fst (recvmsg pipe_reader_gone 1 msg_one 0) = Fail EBADF"
  by (simp add: run_defs recvmsg_def cb_size_def)

subsection \<open>Credentials\<close>

lemma creds_update_sock:
  "creds (socks (update_sock w h f) g) =
     (if g = h then creds (f (socks w h)) else creds (socks w g))"
  by (simp add: update_sock_def)













































subsection \<open>Control messages on send\<close>

lemma dup_fds_append:
  "dup_fds w (a @ b) =
     (fst (dup_fds w a) @ fst (dup_fds (snd (dup_fds w a)) b),
      snd (dup_fds (snd (dup_fds w a)) b))"
  by (induction a arbitrary: w) (simp_all add: split_beta)

lemma length_dup_fds: "length (fst (dup_fds w xs)) = length xs"
  by (induction xs arbitrary: w) (simp_all add: split_beta)

lemma collect_fds_rights: "collect_fds w cs = dup_fds w (rights_fds cs)"
proof (induction cs arbitrary: w)
  case Nil
  show ?case by (simp add: rights_fds_def)
next
  case (Cons c cs)
  show ?case
  proof (cases "is_rights c")
    case True
    then have "rights_fds (c # cs) = wire_fds c @ rights_fds cs"
      by (simp add: rights_fds_def)
    with True Cons show ?thesis
      by (simp add: dup_fds_append is_rights_def wire_fds_def split_beta Let_def)
  next
    case False
    then have "rights_fds (c # cs) = rights_fds cs"
      by (simp add: rights_fds_def)
    with False Cons show ?thesis
      by (auto simp add: is_rights_def)
  qed
qed

lemma rights_fds_none: "\<forall>c\<in>set cs. \<not> is_rights c \<Longrightarrow> rights_fds cs = []"
  by (induction cs) (simp_all add: rights_fds_def)

lemma HandleSendmsgLocked_queue:
  assumes "HandleSendmsgLocked w p msg c = (Ret n, w')" and "0 < n"
  shows "cmsg_fd_queue (socks w' p) =
           cmsg_fd_queue (socks w p)
           @ (if 0 < msg_controllen msg then [fst (collect_fds w (msg_control msg))] else [])"
proof -
  have w': "w' = snd (HandleSendmsgLocked w p msg c)" using assms(1) by simp
  have r: "fst (HandleSendmsgLocked w p msg c) = Ret n" using assms(1) by simp
  show ?thesis
    using r assms(2) unfolding w'
    by (auto simp add: HandleSendmsgLocked_def Let_def split_beta split: if_splits)
qed

text \<open>
  C1 (as amended). For every \<^verbatim>\<open>sendmsg\<close> on an endpoint with a peer that delivers at least
  one payload byte, exactly one entry is pushed onto the receiver's control-message FIFO
  if and only if \<^verbatim>\<open>msg_controllen\<close> is positive, whatever the control buffer holds. The entry
  is the list of the duplicates, one for each descriptor of each SOL_SOCKET/SCM_RIGHTS
  message in order; control messages of any other kind add no descriptor, so a control
  buffer without SCM_RIGHTS pushes the empty list.
\<close>

theorem sendmsg_control_entry:
  assumes "peer (socks w h) = Some p"
    and "sendmsg w h msg flags = (Ret n, w')"
    and "0 < n"
  shows "cmsg_fd_queue (socks w' p) =
           cmsg_fd_queue (socks w p)
           @ (if 0 < msg_controllen msg
              then [fst (dup_fds w (rights_fds (msg_control msg)))] else [])
       \<and> length (fst (dup_fds w (rights_fds (msg_control msg))))
           = length (rights_fds (msg_control msg))
       \<and> ((\<forall>c\<in>set (msg_control msg). \<not> is_rights c) \<longrightarrow>
            fst (dup_fds w (rights_fds (msg_control msg))) = [])"
proof -
  have "HandleSendmsgLocked w p msg (my_cred (socks w h)) = (Ret n, w')"
    using assms(1,2) by (simp add: sendmsg_def Let_def split: if_splits)
  from HandleSendmsgLocked_queue [OF this assms(3)]
  show ?thesis
    by (simp add: collect_fds_rights length_dup_fds rights_fds_none)
qed

lemmas data_defs =
  run_defs is_rights_def wire_fds_def rights_fds_def fits_def pair_with_file_def msg_rights_def msg_cred_def msg_rights0_def msg_recv_def
  dgram_pair_def msg_abc_def msg_two_def msg_none_def rights_sent_def
  empty_rights_sent_def abc_sent_def
  sendmsg_def HandleSendmsgLocked_def recvmsg_def recvmsg_payload_def recvmsg_control_def
  recvmsg_waits_def IsSelectReadReady_def GetPollEvents_def CanRead_def CanWrite_def
  close_unpassed.simps CMSG_LEN_def CMSG_SPACE_def CMSG_ALIGN_def sizeof_long_def
  sizeof_int_def sizeof_cmsghdr_def sizeof_ucred_def SOL_SOCKET_def SCM_RIGHTS_def
  SCM_CREDENTIALS_def MSG_CTRUNC_def MSG_TRUNC_def MSG_DONTWAIT_def POLLIN_def POLLOUT_def
  POLLERR_def POLLHUP_def DupLocked_def AddFileStreamLocked_def GetFirstUnusedDescriptor_def
  CloseLocked_def cb_write_def cb_read_def cb_size_def kBufferSize_def upt_rec split_beta



text \<open>
  A run of the theorem: end 0 of the socketpair sends one byte with SCM_RIGHTS carrying
  descriptor 2 twice; the duplicates are 3 and 4, and the entry \<open>[3, 4]\<close> is pushed on end 1.
\<close>

theorem sendmsg_control_entry_witness:
  "peer (socks pair_with_file 0) = Some 1
   \<and> fst (sendmsg pair_with_file 0 msg_rights 0) = Ret 1
   \<and> 0 < msg_controllen msg_rights
   \<and> rights_fds (msg_control msg_rights) = [2, 2]
   \<and> cmsg_fd_queue (socks pair_with_file 1) = []
   \<and> cmsg_fd_queue (socks (snd (sendmsg pair_with_file 0 msg_rights 0)) 1) = [[3, 4]]"
proof -
  have p: "peer (socks pair_with_file 0) = Some 1"
    by (simp add: data_defs)
  have f: "fst (sendmsg pair_with_file 0 msg_rights 0) = Ret 1"
    by (simp add: data_defs)
  then have r: "sendmsg pair_with_file 0 msg_rights 0
                = (Ret 1, snd (sendmsg pair_with_file 0 msg_rights 0))"
    by (simp add: prod_eq_iff)
  have cl: "0 < msg_controllen msg_rights"
    by (simp add: data_defs)
  have rf: "rights_fds (msg_control msg_rights) = [2, 2]"
    by (simp add: data_defs)
  have d: "fst (dup_fds pair_with_file [2, 2]) = [3, 4]"
    by (simp add: data_defs)
  have q: "cmsg_fd_queue (socks pair_with_file 1) = []"
    by (simp add: data_defs)
  have n: "(0::int) < 1" by simp
  note th = sendmsg_control_entry [OF p r n, THEN conjunct1]
  have "cmsg_fd_queue (socks (snd (sendmsg pair_with_file 0 msg_rights 0)) 1) = [[3, 4]]"
    unfolding th by (simp only: cl rf d q if_True append_Nil)
  with p f cl rf q show ?thesis by (intro conjI)
qed

text \<open>
  The claim as it was stated ("an entry is pushed if and only if the message carried
  SOL_SOCKET/SCM_RIGHTS control data; control messages of any other kind enqueue nothing")
  fails: the message carries one control message, of type SCM_CREDENTIALS and no other,
  one byte is delivered, and an entry, the empty list, is pushed on the receiver's FIFO.
\<close>

theorem sendmsg_control_entry_counterexample:
  "map cmsg_type (msg_control msg_cred) = [SCM_CREDENTIALS]
   \<and> fst (sendmsg pair_with_file 0 msg_cred 0) = Ret 1
   \<and> cmsg_fd_queue (socks pair_with_file 1) = []
   \<and> cmsg_fd_queue (socks (snd (sendmsg pair_with_file 0 msg_cred 0)) 1) = [[]]"
  by (simp add: data_defs)

subsection \<open>The data path of recvmsg\<close>

lemma flag_facts:
  "(f OR MSG_CTRUNC) AND MSG_CTRUNC \<noteq> 0"
  "(0::int) AND MSG_CTRUNC = 0"
  "MSG_TRUNC AND MSG_CTRUNC = 0"
  "MSG_TRUNC AND MSG_TRUNC \<noteq> 0"
  "(MSG_TRUNC OR MSG_CTRUNC) AND MSG_TRUNC \<noteq> 0"
  "MSG_CTRUNC AND MSG_TRUNC = 0"
  "(f OR MSG_CTRUNC) OR MSG_CTRUNC = f OR MSG_CTRUNC"
  "MSG_TRUNC \<noteq> 0"
  "MSG_CTRUNC \<noteq> 0"
proof -
  have "bit ((f OR MSG_CTRUNC) AND MSG_CTRUNC) 3"
    by (simp add: MSG_CTRUNC_def bit_simps)
  then show "(f OR MSG_CTRUNC) AND MSG_CTRUNC \<noteq> 0" by auto
qed (simp_all add: MSG_CTRUNC_def MSG_TRUNC_def)

lemma dgram_copy_remaining:
  "fst (dgram_copy rest vs) = length rest - length (concat vs)"
  by (induction vs arbitrary: rest) (auto simp add: split_beta Let_def min_def)

lemma dgram_copy_lengths:
  "map length (snd (dgram_copy rest vs)) = map length vs"
  by (induction vs arbitrary: rest) (auto simp add: split_beta Let_def min_def)

lemma dgram_copy_concat:
  "concat (snd (dgram_copy rest vs))
     = take (length (concat vs)) rest @ drop (length rest) (concat vs)"
proof (induction vs arbitrary: rest)
  case Nil
  show ?case by simp
next
  case (Cons v vs)
  show ?case
  proof (cases "length v \<le> length rest")
    case True
    then show ?thesis
      by (auto simp add: split_beta Let_def min_def Cons take_add)
  next
    case False
    then show ?thesis
      by (auto simp add: split_beta Let_def min_def Cons)
  qed
qed


lemma close_unpassed_spec:
  "\<exists>k\<le>length fds.
      fst (snd (close_unpassed w fds n fl)) = take k fds
      \<and> snd (snd (close_unpassed w fds n fl)) = (if k < length fds then fl OR MSG_CTRUNC else fl)
      \<and> close_log (fst (close_unpassed w fds n fl)) = close_log w @ rev (drop k fds)
      \<and> (fits n k \<or> k = 0)
      \<and> (\<forall>j. k < j \<and> j \<le> length fds \<longrightarrow> \<not> fits n j)"
proof (induction w fds n fl rule: close_unpassed.induct)
  case (1 w fds n fl)
  show ?case
  proof (cases "CMSG_SPACE (CMSG_LEN (length fds * sizeof_int)) > n \<and> fds \<noteq> []")
    case False
    then have eq: "close_unpassed w fds n fl = (w, fds, fl)"
      by (subst close_unpassed.simps) auto
    from False have "fits n (length fds) \<or> length fds = 0"
      by (auto simp add: fits_def)
    then show ?thesis
      by (intro exI [of _ "length fds"]) (auto simp add: eq)
  next
    case True
    then have eq: "close_unpassed w fds n fl
        = close_unpassed (CloseLocked w (last fds)) (butlast fds) n (fl OR MSG_CTRUNC)"
      by (subst close_unpassed.simps) simp
    from 1 [OF True] obtain k where k: "k \<le> length (butlast fds)"
      and r1: "fst (snd (close_unpassed w fds n fl)) = take k (butlast fds)"
      and r2: "snd (snd (close_unpassed w fds n fl))
                 = (if k < length (butlast fds) then (fl OR MSG_CTRUNC) OR MSG_CTRUNC
                    else fl OR MSG_CTRUNC)"
      and r3: "close_log (fst (close_unpassed w fds n fl))
                 = close_log (CloseLocked w (last fds)) @ rev (drop k (butlast fds))"
      and f: "fits n k \<or> k = 0"
      and nf: "\<forall>j. k < j \<and> j \<le> length (butlast fds) \<longrightarrow> \<not> fits n j"
      unfolding eq by blast
    from True have ne: "fds \<noteq> []" by simp
    then have split: "fds = butlast fds @ [last fds]" by simp
    have "length (butlast fds) < length fds" using ne by simp
    with k have klt: "k < length fds" by simp
    have d: "drop k fds = drop k (butlast fds) @ [last fds]"
      using k by (subst split) simp
    have t: "take k fds = take k (butlast fds)"
      using k by (subst split) simp
    have top: "\<not> fits n (length fds)" using True by (simp add: fits_def)
    have nf': "\<forall>j. k < j \<and> j \<le> length fds \<longrightarrow> \<not> fits n j"
    proof (intro allI impI)
      fix j assume j: "k < j \<and> j \<le> length fds"
      show "\<not> fits n j"
      proof (cases "j = length fds")
        case True with top show ?thesis by simp
      next
        case False
        with j have "j \<le> length (butlast fds)" by auto
        with j nf show ?thesis by blast
      qed
    qed
    have c1: "fst (snd (close_unpassed w fds n fl)) = take k fds"
      by (simp only: r1 t)
    have c2: "snd (snd (close_unpassed w fds n fl))
                = (if k < length fds then fl OR MSG_CTRUNC else fl)"
      using klt by (simp add: r2 flag_facts)
    have c3: "close_log (fst (close_unpassed w fds n fl)) = close_log w @ rev (drop k fds)"
      by (simp add: r3 d CloseLocked_def)
    from klt c1 c2 c3 f nf' show ?thesis
      by (intro exI [of _ k]) simp
  qed
qed

lemma recvmsg_control_iov [simp]: "msg_iov (fst (recvmsg_control w s msg c)) = msg_iov msg"
  by (simp add: recvmsg_control_def Let_def split_beta split: list.splits)

lemma recvmsg_control_dgrams [simp]: "queue (fst (snd (recvmsg_control w s msg c))) = queue s"
  by (simp add: recvmsg_control_def Let_def split_beta split: list.splits)

lemma recvmsg_control_flags:
  "msg_flags (fst (recvmsg_control w s msg c)) =
     (case cmsg_fd_queue s of
        [] \<Rightarrow> msg_flags msg
      | front # rest \<Rightarrow>
          snd (snd (close_unpassed w front (msg_controllen msg) (msg_flags msg))))"
  by (simp add: recvmsg_control_def Let_def split_beta split: list.splits)

lemma recvmsg_control_ctrl_queue:
  "cmsg_fd_queue (fst (snd (recvmsg_control w s msg c))) = tl (cmsg_fd_queue s)"
  by (simp add: recvmsg_control_def Let_def split_beta split: list.splits)

lemma recvmsg_control_log:
  "close_log (snd (snd (recvmsg_control w s msg c))) =
     (case cmsg_fd_queue s of
        [] \<Rightarrow> close_log w
      | front # rest \<Rightarrow>
          close_log (fst (close_unpassed w front (msg_controllen msg) (msg_flags msg))))"
  by (simp add: recvmsg_control_def Let_def split_beta split: list.splits)

lemma recvmsg_control_rights:
  assumes "cmsg_fd_queue s = front # rest"
  shows "\<exists>more. msg_control (fst (recvmsg_control w s msg c)) =
           (if CMSG_SPACE (CMSG_LEN (length (fst (snd (close_unpassed w front
                   (msg_controllen msg) (msg_flags msg)))) * sizeof_int)) > msg_controllen msg
            then []
            else [\<lparr>cmsg_len = CMSG_LEN (length (fst (snd (close_unpassed w front
                       (msg_controllen msg) (msg_flags msg)))) * sizeof_int),
                   cmsg_level = SOL_SOCKET, cmsg_type = SCM_RIGHTS,
                   cmsg_data = fst (snd (close_unpassed w front
                       (msg_controllen msg) (msg_flags msg)))\<rparr>]) @ more
         \<and> (\<forall>x\<in>set more. cmsg_type x = SCM_CREDENTIALS)"
  using assms
  by (simp add: recvmsg_control_def Let_def split_beta)

lemma recvmsg_payload_frame:
  "cmsg_fd_queue (snd (snd (snd (recvmsg_payload s msg)))) = cmsg_fd_queue s"
  "msg_controllen (fst (snd (snd (recvmsg_payload s msg)))) = msg_controllen msg"
  "msg_flags (fst (snd (snd (recvmsg_payload s msg)))) = msg_flags msg
   \<or> msg_flags (fst (snd (snd (recvmsg_payload s msg)))) = msg_flags msg OR MSG_TRUNC"
  by (simp_all add: recvmsg_payload_def Let_def split_beta split: list.splits)

lemma recvmsg_Ret_pos:
  assumes "recvmsg w h msg flags = (Ret n, msg', w')" and "0 < n"
  shows "n = fst (recvmsg_payload (socks w h) (msg\<lparr>msg_flags := 0\<rparr>))
       \<and> msg' = fst (recvmsg_control w
                   (snd (snd (snd (recvmsg_payload (socks w h) (msg\<lparr>msg_flags := 0\<rparr>)))))
                   (fst (snd (snd (recvmsg_payload (socks w h) (msg\<lparr>msg_flags := 0\<rparr>)))))
                   (fst (snd (recvmsg_payload (socks w h) (msg\<lparr>msg_flags := 0\<rparr>)))))
       \<and> socks w' h = fst (snd (recvmsg_control w
                   (snd (snd (snd (recvmsg_payload (socks w h) (msg\<lparr>msg_flags := 0\<rparr>)))))
                   (fst (snd (snd (recvmsg_payload (socks w h) (msg\<lparr>msg_flags := 0\<rparr>)))))
                   (fst (snd (recvmsg_payload (socks w h) (msg\<lparr>msg_flags := 0\<rparr>))))))
       \<and> close_log w' = close_log (snd (snd (recvmsg_control w
                   (snd (snd (snd (recvmsg_payload (socks w h) (msg\<lparr>msg_flags := 0\<rparr>)))))
                   (fst (snd (snd (recvmsg_payload (socks w h) (msg\<lparr>msg_flags := 0\<rparr>)))))
                   (fst (snd (recvmsg_payload (socks w h) (msg\<lparr>msg_flags := 0\<rparr>)))))))"
proof -
  have 1: "fst (recvmsg w h msg flags) = Ret n" using assms(1) by simp
  have 2: "msg' = fst (snd (recvmsg w h msg flags))" using assms(1) by simp
  have 3: "w' = snd (snd (recvmsg w h msg flags))" using assms(1) by simp
  show ?thesis
    using 1 assms(2) unfolding 2 3
    by (auto simp add: recvmsg_def Let_def split_beta split: if_splits)
qed

text \<open>
  C2 (as amended). For every \<^verbatim>\<open>recvmsg\<close> that delivers at least one byte and pops a
  control-message entry \<open>fds\<close>, MSG_CTRUNC is set if and only if at least one descriptor
  was dropped. The first \<open>k\<close> descriptors are kept, \<open>k\<close> being the largest number for which
  the SCM_RIGHTS message passes the size test (or 0 when none does); the others are closed,
  last first; the message is written when it passes the test and dropped otherwise (then
  \<open>k = 0\<close>, and MSG_CTRUNC is set only if the entry held a descriptor). The entry is popped
  in every case, and the byte count and the buffers are those of the payload step alone.
\<close>

theorem recvmsg_ctrunc:
  assumes r: "recvmsg w h msg flags = (Ret n, msg', w')" and n: "0 < n"
    and q: "cmsg_fd_queue (socks w h) = fds # rest"
  shows "\<exists>k\<le>length fds.
           (msg_flags msg' AND MSG_CTRUNC \<noteq> 0 \<longleftrightarrow> k < length fds)
         \<and> close_log w' = close_log w @ rev (drop k fds)
         \<and> cmsg_fd_queue (socks w' h) = rest
         \<and> (\<exists>more. msg_control msg' =
                (if fits (msg_controllen msg) k
                 then [\<lparr>cmsg_len = CMSG_LEN (k * sizeof_int), cmsg_level = SOL_SOCKET,
                        cmsg_type = SCM_RIGHTS, cmsg_data = take k fds\<rparr>]
                 else []) @ more
              \<and> (\<forall>x\<in>set more. cmsg_type x = SCM_CREDENTIALS))
         \<and> (fits (msg_controllen msg) k \<or> k = 0)
         \<and> (\<forall>j. k < j \<and> j \<le> length fds \<longrightarrow> \<not> fits (msg_controllen msg) j)
         \<and> n = fst (recvmsg_payload (socks w h) (msg\<lparr>msg_flags := 0\<rparr>))
         \<and> msg_iov msg'
             = msg_iov (fst (snd (snd (recvmsg_payload (socks w h) (msg\<lparr>msg_flags := 0\<rparr>)))))"
proof -
  define P where "P = recvmsg_payload (socks w h) (msg\<lparr>msg_flags := 0\<rparr>)"
  define cr where "cr = fst (snd P)"
  define msg1 where "msg1 = fst (snd (snd P))"
  define s1 where "s1 = snd (snd (snd P))"
  define C where "C = recvmsg_control w s1 msg1 cr"
  note R = recvmsg_Ret_pos [OF r n, folded P_def, folded cr_def msg1_def s1_def, folded C_def]
  have cq: "cmsg_fd_queue s1 = fds # rest"
    by (simp add: s1_def P_def recvmsg_payload_frame q)
  have cl: "msg_controllen msg1 = msg_controllen msg"
    by (simp add: msg1_def P_def recvmsg_payload_frame)
  have f0: "msg_flags msg1 = 0 \<or> msg_flags msg1 = 0 OR MSG_TRUNC"
    using recvmsg_payload_frame(3) [of "socks w h" "msg\<lparr>msg_flags := 0\<rparr>"]
    by (simp add: msg1_def P_def)
  then have f0c: "msg_flags msg1 AND MSG_CTRUNC = 0"
    by (auto simp add: flag_facts)
  from close_unpassed_spec [of fds w "msg_controllen msg" "msg_flags msg1"]
  obtain k where k: "k \<le> length fds"
    and k1: "fst (snd (close_unpassed w fds (msg_controllen msg) (msg_flags msg1))) = take k fds"
    and k2: "snd (snd (close_unpassed w fds (msg_controllen msg) (msg_flags msg1)))
               = (if k < length fds then msg_flags msg1 OR MSG_CTRUNC else msg_flags msg1)"
    and k3: "close_log (fst (close_unpassed w fds (msg_controllen msg) (msg_flags msg1)))
               = close_log w @ rev (drop k fds)"
    and k4: "fits (msg_controllen msg) k \<or> k = 0"
    and k5: "\<forall>j. k < j \<and> j \<le> length fds \<longrightarrow> \<not> fits (msg_controllen msg) j"
    by blast
  have fl: "msg_flags msg' AND MSG_CTRUNC \<noteq> 0 \<longleftrightarrow> k < length fds"
    using R f0c by (simp add: C_def recvmsg_control_flags cq cl k2 flag_facts)
  have lg: "close_log w' = close_log w @ rev (drop k fds)"
    using R by (simp add: C_def recvmsg_control_log cq cl k3)
  have qu: "cmsg_fd_queue (socks w' h) = rest"
    using R by (simp add: C_def recvmsg_control_ctrl_queue cq)
  have lk: "length (take k fds) = k" using k by simp
  from recvmsg_control_rights [OF cq, of w msg1 cr]
  obtain more where m: "msg_control (fst C) =
           (if CMSG_SPACE (CMSG_LEN (k * sizeof_int)) > msg_controllen msg then []
            else [\<lparr>cmsg_len = CMSG_LEN (k * sizeof_int),
                   cmsg_level = SOL_SOCKET, cmsg_type = SCM_RIGHTS,
                   cmsg_data = take k fds\<rparr>]) @ more"
    and mc: "\<forall>x\<in>set more. cmsg_type x = SCM_CREDENTIALS"
    unfolding C_def cl k1 lk by blast
  have ct: "\<exists>more. msg_control msg' =
                (if fits (msg_controllen msg) k
                 then [\<lparr>cmsg_len = CMSG_LEN (k * sizeof_int), cmsg_level = SOL_SOCKET,
                        cmsg_type = SCM_RIGHTS, cmsg_data = take k fds\<rparr>]
                 else []) @ more
              \<and> (\<forall>x\<in>set more. cmsg_type x = SCM_CREDENTIALS)"
    using R m mc by (intro exI [of _ more]) (auto simp add: fits_def)
  have pn: "n = fst (recvmsg_payload (socks w h) (msg\<lparr>msg_flags := 0\<rparr>))"
    using R by (simp add: P_def)
  have iov: "msg_iov msg'
             = msg_iov (fst (snd (snd (recvmsg_payload (socks w h) (msg\<lparr>msg_flags := 0\<rparr>)))))"
    using R by (simp add: C_def msg1_def P_def)
  from k fl lg qu ct k4 k5 pn iov show ?thesis
    by (intro exI [of _ k]) blast
qed

text \<open>
  A run of the theorem: end 1 holds the entry \<open>[3, 4]\<close> and receives with a control buffer
  of 28 bytes, which passes the test for one descriptor and not for two. The call returns
  the one byte, descriptor 4 is closed, MSG_CTRUNC is set, and descriptor 3 is delivered.
\<close>

theorem recvmsg_ctrunc_witness:
  "cmsg_fd_queue (socks rights_sent 1) = [[3, 4]]
   \<and> fst (recvmsg rights_sent 1 (msg_recv 28) 0) = Ret 1
   \<and> (\<exists>k\<le>2. (msg_flags (fst (snd (recvmsg rights_sent 1 (msg_recv 28) 0))) AND MSG_CTRUNC \<noteq> 0
                 \<longleftrightarrow> k < 2)
             \<and> close_log (snd (snd (recvmsg rights_sent 1 (msg_recv 28) 0)))
                 = close_log rights_sent @ rev (drop k [3, 4])
             \<and> cmsg_fd_queue (socks (snd (snd (recvmsg rights_sent 1 (msg_recv 28) 0))) 1) = [])
   \<and> msg_flags (fst (snd (recvmsg rights_sent 1 (msg_recv 28) 0))) = MSG_CTRUNC
   \<and> close_log (snd (snd (recvmsg rights_sent 1 (msg_recv 28) 0))) = [4]
   \<and> map cmsg_data (msg_control (fst (snd (recvmsg rights_sent 1 (msg_recv 28) 0)))) = [[3]]"
proof -
  have q: "cmsg_fd_queue (socks rights_sent 1) = [3, 4] # []"
    by (simp add: data_defs)
  have f: "fst (recvmsg rights_sent 1 (msg_recv 28) 0) = Ret 1"
    by (simp add: data_defs)
  then have r: "recvmsg rights_sent 1 (msg_recv 28) 0
                = (Ret 1, fst (snd (recvmsg rights_sent 1 (msg_recv 28) 0)),
                   snd (snd (recvmsg rights_sent 1 (msg_recv 28) 0)))"
    by (simp add: prod_eq_iff)
  have n: "(0::int) < 1" by simp
  from recvmsg_ctrunc [OF r n q] obtain k where k: "k \<le> length [3, 4 :: int]"
    and k1: "msg_flags (fst (snd (recvmsg rights_sent 1 (msg_recv 28) 0))) AND MSG_CTRUNC \<noteq> 0
             \<longleftrightarrow> k < length [3, 4 :: int]"
    and k2: "close_log (snd (snd (recvmsg rights_sent 1 (msg_recv 28) 0)))
             = close_log rights_sent @ rev (drop k [3, 4])"
    and k3: "cmsg_fd_queue (socks (snd (snd (recvmsg rights_sent 1 (msg_recv 28) 0))) 1) = []"
    by blast
  have ex: "\<exists>k\<le>2. (msg_flags (fst (snd (recvmsg rights_sent 1 (msg_recv 28) 0))) AND MSG_CTRUNC \<noteq> 0
                 \<longleftrightarrow> k < 2)
             \<and> close_log (snd (snd (recvmsg rights_sent 1 (msg_recv 28) 0)))
                 = close_log rights_sent @ rev (drop k [3, 4])
             \<and> cmsg_fd_queue (socks (snd (snd (recvmsg rights_sent 1 (msg_recv 28) 0))) 1) = []"
    using k k1 k2 k3 by (intro exI [of _ k]) (simp add: numeral_2_eq_2)
  have e1: "msg_flags (fst (snd (recvmsg rights_sent 1 (msg_recv 28) 0))) = MSG_CTRUNC"
    by (simp add: data_defs)
  have e2: "close_log (snd (snd (recvmsg rights_sent 1 (msg_recv 28) 0))) = [4]"
    by (simp add: data_defs)
  have e3: "map cmsg_data (msg_control (fst (snd (recvmsg rights_sent 1 (msg_recv 28) 0))))
            = [[3]]"
    by (simp add: data_defs)
  from q f ex e1 e2 e3 show ?thesis by simp
qed

text \<open>
  The claim as it was stated ("MSG_CTRUNC is set if and only if at least one descriptor
  was dropped or the entire SCM_RIGHTS header did not fit") fails for an entry without
  descriptors: end 1 holds the entry \<open>[]\<close> (the sender's SCM_RIGHTS message carried no
  descriptor) and receives with a control buffer of 0 bytes. The header does not pass the
  size test and is not delivered, the entry is popped, the byte is returned, and
  MSG_CTRUNC is not set.
\<close>

theorem recvmsg_ctrunc_counterexample:
  "cmsg_fd_queue (socks empty_rights_sent 1) = [[]]
   \<and> \<not> fits (msg_controllen (msg_recv 0)) 0
   \<and> fst (recvmsg empty_rights_sent 1 (msg_recv 0) 0) = Ret 1
   \<and> msg_control (fst (snd (recvmsg empty_rights_sent 1 (msg_recv 0) 0))) = []
   \<and> cmsg_fd_queue (socks (snd (snd (recvmsg empty_rights_sent 1 (msg_recv 0) 0))) 1) = []
   \<and> msg_flags (fst (snd (recvmsg empty_rights_sent 1 (msg_recv 0) 0))) AND MSG_CTRUNC = 0"
  by (simp add: data_defs)

lemma recvmsg_payload_dgram:
  assumes "socket_type s \<noteq> SOCK_STREAM" and "queue s = d # rest"
  shows "recvmsg_payload s msg =
           (int (length (content d)) - int (fst (dgram_copy (content d) (msg_iov msg))),
            Some (cred d),
            msg\<lparr>msg_iov := snd (dgram_copy (content d) (msg_iov msg)),
                msg_flags := (if fst (dgram_copy (content d) (msg_iov msg)) > 0
                              then msg_flags msg OR MSG_TRUNC else msg_flags msg)\<rparr>,
            s\<lparr>queue := rest\<rparr>)"
  using assms by (simp add: recvmsg_payload_def Let_def split_beta)

lemma close_unpassed_flags:
  "snd (snd (close_unpassed w fds n fl)) = fl \<or>
   snd (snd (close_unpassed w fds n fl)) = fl OR MSG_CTRUNC"
  using close_unpassed_spec [of fds w n fl] by auto

lemma recvmsg_control_trunc:
  assumes "msg_flags msg = 0 \<or> msg_flags msg = MSG_TRUNC"
  shows "msg_flags (fst (recvmsg_control w s msg c)) AND MSG_TRUNC \<noteq> 0
         \<longleftrightarrow> msg_flags msg = MSG_TRUNC"
proof (cases "cmsg_fd_queue s")
  case Nil
  with assms show ?thesis
    by (auto simp add: recvmsg_control_flags flag_facts)
next
  case (Cons front rest)
  with assms close_unpassed_flags [of w front "msg_controllen msg" "msg_flags msg"]
  show ?thesis
    by (auto simp add: recvmsg_control_flags flag_facts)
qed

text \<open>
  C3 (as amended). For every \<^verbatim>\<open>recvmsg\<close> on a datagram or seqpacket endpoint that passes the
  direction and state tests, does not wait, and finds its datagram queue non-empty:
  exactly one datagram is popped; its payload is copied across the buffers up to their
  total capacity, the rest of the buffers untouched; MSG_TRUNC is set if and only if the
  payload is longer than the total capacity; and when the number \<open>m\<close> of bytes copied, the
  minimum of the payload size and the capacity, is positive, the call returns \<open>m\<close>. When \<open>m\<close>
  is 0 the call does not return 0 unless the endpoint is a seqpacket endpoint without a
  peer: it fails with EAGAIN, the datagram popped all the same.
\<close>

theorem recvmsg_datagram:
  assumes ty: "socket_type (socks w h) \<noteq> SOCK_STREAM"
    and dir: "stream_dir (socks w h) \<noteq> WRITE_ONLY"
    and st: "socket_type (socks w h) = SOCK_DGRAM \<or> connect_state (socks w h) = SOCKET_CONNECTED"
    and nw: "\<not> recvmsg_waits w (socks w h) flags"
    and q: "queue (socks w h) = d # rest"
  shows "queue (socks (snd (snd (recvmsg w h msg flags))) h) = rest
       \<and> concat (msg_iov (fst (snd (recvmsg w h msg flags))))
           = take (length (concat (msg_iov msg))) (content d)
             @ drop (length (content d)) (concat (msg_iov msg))
       \<and> map length (msg_iov (fst (snd (recvmsg w h msg flags)))) = map length (msg_iov msg)
       \<and> fst (recvmsg w h msg flags)
           = (if 0 < min (length (content d)) (length (concat (msg_iov msg)))
              then Ret (int (min (length (content d)) (length (concat (msg_iov msg)))))
              else if peer (socks w h) = None \<and> socket_type (socks w h) \<noteq> SOCK_DGRAM
              then Ret 0 else Fail EAGAIN)
       \<and> (msg_flags (fst (snd (recvmsg w h msg flags))) AND MSG_TRUNC \<noteq> 0
            \<longleftrightarrow> length (concat (msg_iov msg)) < length (content d))"
proof -
  define msg0 where "msg0 = msg\<lparr>msg_flags := 0\<rparr>"
  define rem where "rem = length (content d) - length (concat (msg_iov msg))"
  define msg1 where "msg1 = msg0\<lparr>msg_iov := snd (dgram_copy (content d) (msg_iov msg)),
                                 msg_flags := (if rem > 0 then MSG_TRUNC else 0)\<rparr>"
  define s1 where "s1 = (socks w h)\<lparr>queue := rest\<rparr>"
  define bytes where "bytes = int (length (content d)) - int rem"
  have P: "recvmsg_payload (socks w h) msg0 = (bytes, Some (cred d), msg1, s1)"
    by (simp add: recvmsg_payload_dgram [OF ty q] msg0_def msg1_def s1_def bytes_def rem_def
        dgram_copy_remaining)
  have bytes: "bytes = int (min (length (content d)) (length (concat (msg_iov msg))))"
    by (simp add: bytes_def rem_def min_def)
  have f1: "msg_flags msg1 = 0 \<or> msg_flags msg1 = MSG_TRUNC"
    by (simp add: msg1_def)
  have tr: "msg_flags msg1 = MSG_TRUNC \<longleftrightarrow> length (concat (msg_iov msg)) < length (content d)"
    by (auto simp add: msg1_def rem_def MSG_TRUNC_def)
  have iov1: "msg_iov msg1 = snd (dgram_copy (content d) (msg_iov msg))"
    by (simp add: msg1_def)
  show ?thesis
  proof (cases "0 < bytes")
    case True
    then have R: "recvmsg w h msg flags
        = (Ret bytes, fst (recvmsg_control w s1 msg1 (Some (cred d))),
           (snd (snd (recvmsg_control w s1 msg1 (Some (cred d)))))
             \<lparr>socks := (socks (snd (snd (recvmsg_control w s1 msg1 (Some (cred d))))))
                   (h := fst (snd (recvmsg_control w s1 msg1 (Some (cred d)))))\<rparr>)"
      using dir st nw
      by (auto simp add: recvmsg_def Let_def split_beta P [unfolded msg0_def])
    show ?thesis
      using True bytes recvmsg_control_trunc [OF f1, of w s1 "Some (cred d)"] tr
      by (simp add: R iov1 dgram_copy_concat dgram_copy_lengths s1_def)
  next
    case False
    then have R: "recvmsg w h msg flags
        = ((if peer (socks w h) = None \<and> socket_type (socks w h) \<noteq> SOCK_DGRAM
            then Ret 0 else Fail EAGAIN),
           msg1\<lparr>msg_control := [], msg_controllen := 0\<rparr>,
           w\<lparr>socks := (socks w)(h := s1)\<rparr>)"
      using dir st nw
      by (auto simp add: recvmsg_def Let_def split_beta P [unfolded msg0_def])
    show ?thesis
      using False bytes tr f1
      by (auto simp add: R iov1 dgram_copy_concat dgram_copy_lengths s1_def flag_facts)
  qed
qed

text \<open>
  A run of the theorem: end 1 of the datagram pair holds the datagram 1, 2, 3 and receives
  into one buffer of two bytes. The call returns 2, the buffer holds 1, 2, MSG_TRUNC is
  set and the queue is empty.
\<close>

theorem recvmsg_datagram_witness:
  "queue (socks abc_sent 1)
     = [\<lparr>cred = \<lparr>pid = 10, uid = 20, gid = 20\<rparr>, content = [1, 2, 3]\<rparr>]
   \<and> \<not> recvmsg_waits abc_sent (socks abc_sent 1) 0
   \<and> fst (recvmsg abc_sent 1 msg_two 0) = Ret 2
   \<and> concat (msg_iov (fst (snd (recvmsg abc_sent 1 msg_two 0)))) = [1, 2]
   \<and> msg_flags (fst (snd (recvmsg abc_sent 1 msg_two 0))) AND MSG_TRUNC \<noteq> 0
   \<and> queue (socks (snd (snd (recvmsg abc_sent 1 msg_two 0))) 1) = []"
proof -
  have ty: "socket_type (socks abc_sent 1) \<noteq> SOCK_STREAM"
    by (simp add: data_defs)
  have dir: "stream_dir (socks abc_sent 1) \<noteq> WRITE_ONLY"
    by (simp add: data_defs)
  have st: "socket_type (socks abc_sent 1) = SOCK_DGRAM
            \<or> connect_state (socks abc_sent 1) = SOCKET_CONNECTED"
    by (simp add: data_defs)
  have nw: "\<not> recvmsg_waits abc_sent (socks abc_sent 1) 0"
    by (simp add: data_defs)
  have q: "queue (socks abc_sent 1)
           = \<lparr>cred = \<lparr>pid = 10, uid = 20, gid = 20\<rparr>, content = [1, 2, 3]\<rparr> # []"
    by (simp add: data_defs)
  from recvmsg_datagram [OF ty dir st nw q, of msg_two] q nw
  show ?thesis by (simp add: msg_two_def)
qed

text \<open>
  The claim as it was stated ("the returned byte count is min(payload size, total iovec
  capacity)") fails when that minimum is 0: end 1 holds the datagram 1, 2, 3 and receives
  with no buffer. The minimum is 0, the datagram is popped, and the call does not return
  0 but fails with EAGAIN.
\<close>

theorem recvmsg_datagram_counterexample:
  "map content (queue (socks abc_sent 1)) = [[1, 2, 3]]
   \<and> min (length [1, 2, 3 :: byte]) (length (concat (msg_iov msg_none))) = 0
   \<and> fst (recvmsg abc_sent 1 msg_none 0) = Fail EAGAIN
   \<and> queue (socks (snd (snd (recvmsg abc_sent 1 msg_none 0))) 1) = []"
  by (simp add: data_defs)

end
